theory Spec2Isabelle
  imports
    Complex_Main
    "HOL-Library.Char_ord"
    "HOL-Library.List_Lexorder"
    "HOL-Library.Multiset"
begin

section \<open>BudgetManager: the store\<close>

text \<open>
  The three tables of \<^verbatim>\<open>schema.sql\<close>, each a list of rows in rowid order. Amounts are
  SQLite REAL and JavaScript numbers; they are modelled as exact reals, so rounding and
  overflow of binary floating point are not part of this development. Text columns are
  byte strings compared as SQLite's BINARY collation compares them (lexicographically by
  byte), which is the order of \<^theory_text>\<open>List_Lexorder\<close> over \<^theory_text>\<open>Char_ord\<close>.
\<close>

type_synonym timestamp = string

record category =
  cat_id :: int
  name :: string
  is_active :: int
  cat_created_at :: timestamp

record transaction =
  txn_id :: int
  date :: string
  description :: string
  amount :: real
  type :: string
  category_id :: int
  source :: "string option"
  created_at :: timestamp

record monthly_budget =
  mb_id :: int
  month :: string
  mb_category_id :: int
  budget_amount :: real
  mb_created_at :: timestamp
  updated_at :: timestamp

text \<open>
  The database: the tables and, for the two tables the handlers below insert into, the
  AUTOINCREMENT counter of \<^verbatim>\<open>sqlite_sequence\<close> (the largest rowid ever handed out).
\<close>

record db =
  categories :: "category list"
  transactions :: "transaction list"
  monthly_budgets :: "monthly_budget list"
  seq_transactions :: int
  seq_monthly_budgets :: int

text \<open>
  What a statement can fail with. The constraints are those of \<^verbatim>\<open>schema.sql\<close>; the engine
  checks NOT NULL first, then the CHECK constraints in column order, then the foreign key.
\<close>

datatype store_error =
    NotNullFailed string
  | CheckFailed string
  | ForeignKeyFailed

section \<open>Requests and responses\<close>

text \<open>
  A property of a JSON object as the handler reads it: absent (\<open>undefined\<close> after
  destructuring), \<open>null\<close>, or a value. Request bodies are JSON objects whose properties,
  when present and not null, have the types of the client's interfaces (strings for
  date, description, type, source and month; numbers for amounts and ids).
\<close>

datatype 'a field = Undefined | Null | Val 'a

text \<open>JavaScript truthiness of a string and of a number property.\<close>

fun truthy_str :: "string field \<Rightarrow> bool" where
  "truthy_str (Val s) = (s \<noteq> [])"
| "truthy_str _ = False"

fun truthy_num :: "int field \<Rightarrow> bool" where
  "truthy_num (Val n) = (n \<noteq> 0)"
| "truthy_num _ = False"

text \<open>What \<^verbatim>\<open>bind\<close> hands to SQLite for a property that is not undefined.\<close>

fun sql_value :: "'a field \<Rightarrow> 'a option" where
  "sql_value (Val v) = Some v"
| "sql_value _ = None"

text \<open>
  \<^verbatim>\<open>error.message\<close> in a handler's catch clause is the engine's text for the failed
  statement; \<open>EngineMessage e\<close> stands for that text.
\<close>

datatype message = Text string | EngineMessage store_error

datatype 'a response = JsonResponse 'a nat | ErrorResponse message nat

text \<open>
  \<^verbatim>\<open>jsonResponse(data, status = 200)\<close> and \<^verbatim>\<open>errorResponse(message, status = 400)\<close>:
  the two functions below are the calls with the default status; a call with an
  explicit status is written with the constructor.
\<close>

definition jsonResponse :: "'a \<Rightarrow> 'a response" where
  "jsonResponse data = JsonResponse data 200"

definition errorResponse :: "message \<Rightarrow> 'a response" where
  "errorResponse m = ErrorResponse m 400"

fun status :: "'a response \<Rightarrow> nat" where
  "status (JsonResponse _ s) = s"
| "status (ErrorResponse _ s) = s"

section \<open>Categories handlers\<close>

text \<open>\<^verbatim>\<open>SELECT * FROM categories WHERE is_active = 1 ORDER BY name\<close>\<close>

definition getCategories :: "db \<Rightarrow> category list response" where
  "getCategories d =
     jsonResponse (sort_key name (filter (\<lambda>c. is_active c = 1) (categories d)))"

text \<open>
  \<^verbatim>\<open>UPDATE categories SET is_active = 0 WHERE id = ?\<close>. The route only matches a path
  whose last segment is all digits, so the id is a number.
\<close>

definition deactivate :: "int \<Rightarrow> category \<Rightarrow> category" where
  "deactivate i c = (if cat_id c = i then c\<lparr>is_active := 0\<rparr> else c)"

definition deleteCategory :: "db \<Rightarrow> int \<Rightarrow> string response \<times> db" where
  "deleteCategory d i =
     (jsonResponse ''Category deactivated successfully'',
      d\<lparr>categories := map (deactivate i) (categories d)\<rparr>)"

text \<open>The rows a list response carries (none for an error response).\<close>

fun listed :: "'a list response \<Rightarrow> 'a list" where
  "listed (JsonResponse cs _) = cs"
| "listed (ErrorResponse _ _) = []"

section \<open>Transactions handlers\<close>

text \<open>The body of a transaction request, and each element of an import.\<close>

record txn_body =
  b_date :: "string field"
  b_description :: "string field"
  b_amount :: "real field"
  b_type :: "string field"
  b_category_id :: "int field"
  b_source :: "string field"

text \<open>
  \<^verbatim>\<open>INSERT INTO transactions (date, description, amount, type, category_id, source)
  VALUES (?, ?, ?, ?, ?, ?)\<close> with the bound values, \<open>None\<close> for SQL NULL. The new row gets the
  next rowid and the statement's CURRENT_TIMESTAMP. A failed statement changes nothing.
\<close>

definition insert_transaction ::
  "db \<Rightarrow> timestamp \<Rightarrow> string option \<Rightarrow> string option \<Rightarrow> real option \<Rightarrow> string option
     \<Rightarrow> int option \<Rightarrow> string option \<Rightarrow> store_error + db" where
  "insert_transaction d now dt ds am ty ci so =
     (case dt of None \<Rightarrow> Inl (NotNullFailed ''transactions.date'') | Some dt' \<Rightarrow>
      case ds of None \<Rightarrow> Inl (NotNullFailed ''transactions.description'') | Some ds' \<Rightarrow>
      case am of None \<Rightarrow> Inl (NotNullFailed ''transactions.amount'') | Some am' \<Rightarrow>
      case ty of None \<Rightarrow> Inl (NotNullFailed ''transactions.type'') | Some ty' \<Rightarrow>
      case ci of None \<Rightarrow> Inl (NotNullFailed ''transactions.category_id'') | Some ci' \<Rightarrow>
      if ty' \<noteq> ''income'' \<and> ty' \<noteq> ''expense'' then Inl (CheckFailed ''type'')
      else if so \<noteq> None \<and> so \<noteq> Some ''manual'' \<and> so \<noteq> Some ''csv''
        then Inl (CheckFailed ''source'')
      else if ci' \<notin> set (map cat_id (categories d)) then Inl ForeignKeyFailed
      else Inr (d\<lparr>transactions := transactions d @
                    [\<lparr>txn_id = seq_transactions d + 1, date = dt', description = ds',
                      amount = am', type = ty', category_id = ci', source = so,
                      created_at = now\<rparr>],
                  seq_transactions := seq_transactions d + 1\<rparr>))"

text \<open>
  \<^verbatim>\<open>!date || !description || amount === undefined || !type || !category_id\<close>
\<close>

definition missing_required :: "txn_body \<Rightarrow> bool" where
  "missing_required body \<longleftrightarrow>
     \<not> truthy_str (b_date body) \<or> \<not> truthy_str (b_description body)
     \<or> b_amount body = Undefined \<or> \<not> truthy_str (b_type body)
     \<or> \<not> truthy_num (b_category_id body)"

text \<open>The destructuring default \<^verbatim>\<open>source = 'manual'\<close>: it replaces undefined only.\<close>

fun or_default :: "string \<Rightarrow> string field \<Rightarrow> string field" where
  "or_default dflt Undefined = Val dflt"
| "or_default dflt f = f"

definition createTransaction ::
  "db \<Rightarrow> timestamp \<Rightarrow> txn_body \<Rightarrow> (int \<times> txn_body) response \<times> db" where
  \<open>createTransaction d now body =
     (let source = or_default ''manual'' (b_source body) in
      if missing_required body
        then (errorResponse (Text ''Missing required fields''), d)
      else if b_type body \<noteq> Val ''income'' \<and> b_type body \<noteq> Val ''expense''
        then (errorResponse (Text ''Type must be "income" or "expense"''), d)
      else
        case insert_transaction d now (sql_value (b_date body)) (sql_value (b_description body))
               (sql_value (b_amount body)) (sql_value (b_type body))
               (sql_value (b_category_id body)) (sql_value source) of
          Inl e \<Rightarrow> (ErrorResponse (EngineMessage e) 500, d)
        | Inr d' \<Rightarrow> (JsonResponse (seq_transactions d', body\<lparr>b_source := source\<rparr>) 201, d'))\<close>

text \<open>
  \<^verbatim>\<open>UPDATE transactions SET date = ?, description = ?, amount = ?, type = ?, category_id = ?
  WHERE id = ?\<close>. The constraints are checked on a row that the statement changes; with no
  such row the statement succeeds and changes nothing.
\<close>

definition update_transaction ::
  "db \<Rightarrow> int \<Rightarrow> string option \<Rightarrow> string option \<Rightarrow> real option \<Rightarrow> string option
     \<Rightarrow> int option \<Rightarrow> store_error + db" where
  "update_transaction d i dt ds am ty ci =
     (if i \<notin> set (map txn_id (transactions d)) then Inr d else
      case dt of None \<Rightarrow> Inl (NotNullFailed ''transactions.date'') | Some dt' \<Rightarrow>
      case ds of None \<Rightarrow> Inl (NotNullFailed ''transactions.description'') | Some ds' \<Rightarrow>
      case am of None \<Rightarrow> Inl (NotNullFailed ''transactions.amount'') | Some am' \<Rightarrow>
      case ty of None \<Rightarrow> Inl (NotNullFailed ''transactions.type'') | Some ty' \<Rightarrow>
      case ci of None \<Rightarrow> Inl (NotNullFailed ''transactions.category_id'') | Some ci' \<Rightarrow>
      if ty' \<noteq> ''income'' \<and> ty' \<noteq> ''expense'' then Inl (CheckFailed ''type'')
      else if ci' \<notin> set (map cat_id (categories d)) then Inl ForeignKeyFailed
      else Inr (d\<lparr>transactions :=
                    map (\<lambda>t. if txn_id t = i
                              then t\<lparr>date := dt', description := ds', amount := am',
                                     type := ty', category_id := ci'\<rparr>
                              else t) (transactions d)\<rparr>))"

definition updateTransaction ::
  "db \<Rightarrow> int \<Rightarrow> txn_body \<Rightarrow> (int \<times> txn_body) response \<times> db" where
  "updateTransaction d i body =
     (if missing_required body
        then (errorResponse (Text ''Missing required fields''), d)
      else
        case update_transaction d i (sql_value (b_date body)) (sql_value (b_description body))
               (sql_value (b_amount body)) (sql_value (b_type body))
               (sql_value (b_category_id body)) of
          Inl e \<Rightarrow> (ErrorResponse (EngineMessage e) 500, d)
        | Inr d' \<Rightarrow> (jsonResponse (i, body\<lparr>b_source := Undefined\<rparr>), d'))"

text \<open>
  The import loop. \<open>clock k\<close> is the engine's CURRENT_TIMESTAMP while the element at index
  \<open>k\<close> is handled. A failed insert throws out of the loop into the handler's catch clause:
  the rows inserted before it stay (every statement commits on its own), nothing after
  it is tried.
\<close>

fun import_loop ::
  "(nat \<Rightarrow> timestamp) \<Rightarrow> nat \<Rightarrow> db \<Rightarrow> nat \<Rightarrow> txn_body list \<Rightarrow> (store_error + nat) \<times> db" where
  "import_loop clock k d imported [] = (Inr imported, d)"
| "import_loop clock k d imported (txn # rest) =
     (if \<not> missing_required txn then
        case insert_transaction d (clock k) (sql_value (b_date txn))
               (sql_value (b_description txn)) (sql_value (b_amount txn))
               (sql_value (b_type txn)) (sql_value (b_category_id txn))
               (sql_value (or_default ''csv'' (b_source txn))) of
          Inl e \<Rightarrow> (Inl e, d)
        | Inr d' \<Rightarrow> import_loop clock (Suc k) d' (imported + 1) rest
      else import_loop clock (Suc k) d imported rest)"

text \<open>
  The column values of a stored row, and the values an element binds to the insert
  (\<open>None\<close> for NULL), for comparing what was requested with what was stored.
\<close>

type_synonym txn_values =
  "string option \<times> string option \<times> real option \<times> string option \<times> int option \<times> string option"

definition stored_values :: "transaction \<Rightarrow> txn_values" where
  "stored_values t =
     (Some (date t), Some (description t), Some (amount t), Some (type t),
      Some (category_id t), source t)"

definition bound_values :: "string \<Rightarrow> txn_body \<Rightarrow> txn_values" where
  "bound_values dflt txn =
     (sql_value (b_date txn), sql_value (b_description txn), sql_value (b_amount txn),
      sql_value (b_type txn), sql_value (b_category_id txn),
      sql_value (or_default dflt (b_source txn)))"

text \<open>
  The error with which the store rejects the insert of an import element, \<open>None\<close> when
  it accepts it.
\<close>

definition rejection :: "db \<Rightarrow> txn_body \<Rightarrow> store_error option" where
  "rejection d txn =
     (case insert_transaction d [] (sql_value (b_date txn))
             (sql_value (b_description txn)) (sql_value (b_amount txn))
             (sql_value (b_type txn)) (sql_value (b_category_id txn))
             (sql_value (or_default ''csv'' (b_source txn))) of
        Inl e \<Rightarrow> Some e
      | Inr d' \<Rightarrow> None)"

definition store_accepts :: "db \<Rightarrow> txn_body \<Rightarrow> bool" where
  "store_accepts d txn \<longleftrightarrow> rejection d txn = None"

text \<open>
  \<open>body\<close> is the \<^verbatim>\<open>transactions\<close> property of the request body, \<open>None\<close> when it is not an
  array. The payload of the success response is the count \<^verbatim>\<open>imported\<close>.
\<close>

definition importTransactions ::
  "db \<Rightarrow> (nat \<Rightarrow> timestamp) \<Rightarrow> txn_body list option \<Rightarrow> nat response \<times> db" where
  "importTransactions d clock body =
     (case body of
        None \<Rightarrow> (errorResponse (Text ''Transactions must be an array''), d)
      | Some txns \<Rightarrow>
          (case import_loop clock 0 d 0 txns of
             (Inl e, d') \<Rightarrow> (ErrorResponse (EngineMessage e) 500, d')
           | (Inr imported, d') \<Rightarrow> (jsonResponse imported, d')))"

text \<open>An element the loop gets past: skipped by the check, or accepted by the store.\<close>

definition passes :: "db \<Rightarrow> txn_body \<Rightarrow> bool" where
  "passes d txn \<longleftrightarrow> missing_required txn \<or> store_accepts d txn"

text \<open>The rejection of the first element the loop does not get past, if there is one.\<close>

definition first_rejection :: "db \<Rightarrow> txn_body list \<Rightarrow> store_error option" where
  "first_rejection d txns =
     (case dropWhile (passes d) txns of [] \<Rightarrow> None | txn # rest \<Rightarrow> rejection d txn)"

text \<open>
  The rows of \<open>d\<close> are still the first rows of \<open>d'\<close>, unchanged; \<open>inserted d d'\<close> are
  the rows after them.
\<close>

definition kept :: "db \<Rightarrow> db \<Rightarrow> bool" where
  "kept d d' \<longleftrightarrow> take (length (transactions d)) (transactions d') = transactions d"

definition inserted :: "db \<Rightarrow> db \<Rightarrow> transaction list" where
  "inserted d d' = drop (length (transactions d)) (transactions d')"

text \<open>The elements that pass the presence check of the import loop.\<close>

definition checked :: "txn_body list \<Rightarrow> txn_body list" where
  "checked txns = filter (\<lambda>txn. \<not> missing_required txn) txns"

text \<open>What the import loop does, stated on its result.\<close>

definition import_spec ::
  "db \<Rightarrow> nat \<Rightarrow> txn_body list \<Rightarrow> (store_error + nat) \<times> db \<Rightarrow> bool" where
  "import_spec d imported txns r \<longleftrightarrow>
     categories (snd r) = categories d \<and> monthly_budgets (snd r) = monthly_budgets d
     \<and> seq_monthly_budgets (snd r) = seq_monthly_budgets d
     \<and> kept d (snd r)
     \<and> map stored_values (inserted d (snd r))
          = map (bound_values ''csv'') (checked (takeWhile (passes d) txns))
     \<and> (first_rejection d txns = None \<longrightarrow> fst r = Inr (imported + length (checked txns)))
     \<and> (\<forall>e. first_rejection d txns = Some e \<longrightarrow> fst r = Inl e)"

section \<open>Listing transactions\<close>

text \<open>
  \<^verbatim>\<open>xs LEFT JOIN ys ON on\<close>: every row of \<open>xs\<close> paired with each row of \<open>ys\<close> that
  satisfies the condition, or with NULL once when none does.
\<close>

definition matches :: "('b \<Rightarrow> bool) \<Rightarrow> 'b list \<Rightarrow> 'b option list" where
  "matches P ys = (case filter P ys of [] \<Rightarrow> [None] | z # zs \<Rightarrow> map Some (z # zs))"

definition left_join :: "('a \<Rightarrow> 'b \<Rightarrow> bool) \<Rightarrow> 'a list \<Rightarrow> 'b list \<Rightarrow> ('a \<times> 'b option) list" where
  "left_join on xs ys = concat (map (\<lambda>x. map (Pair x) (matches (on x) ys)) xs)"

text \<open>
  \<^verbatim>\<open>SELECT t.*, c.name as category_name FROM transactions t
  LEFT JOIN categories c ON t.category_id = c.id\<close>
\<close>

definition with_category_name :: "db \<Rightarrow> (transaction \<times> string option) list" where
  "with_category_name d =
     map (\<lambda>r. (fst r, map_option name (snd r)))
       (left_join (\<lambda>t c. category_id t = cat_id c) (transactions d) (categories d))"

text \<open>
  \<^verbatim>\<open>ORDER BY key DESC\<close>. SQL leaves the order of rows with equal keys open; the model
  fixes one such order.
\<close>

definition order_by_desc :: "('a \<Rightarrow> 'k::linorder) \<Rightarrow> 'a list \<Rightarrow> 'a list" where
  "order_by_desc key rows = rev (sort_key key rows)"

text \<open>
  \<open>strftime_ym\<close> is the engine's \<^verbatim>\<open>strftime('%Y-%m', date)\<close>, \<open>None\<close> where it yields NULL
  (a text that is not a date). It is a parameter of every query that filters by month.
  \<open>q\<close> is \<^verbatim>\<open>url.searchParams.get('month')\<close>, \<open>None\<close> when the parameter is absent; the
  empty string is falsy and takes the branch without a month.
\<close>

definition getTransactions ::
  "(string \<Rightarrow> string option) \<Rightarrow> db \<Rightarrow> string option \<Rightarrow> (transaction \<times> string option) list response" where
  "getTransactions strftime_ym d q =
     (case q of
        Some (c # cs) \<Rightarrow>
          jsonResponse (order_by_desc (\<lambda>r. date (fst r))
            (filter (\<lambda>r. strftime_ym (date (fst r)) = Some (c # cs)) (with_category_name d)))
      | _ \<Rightarrow>
          jsonResponse (take 100 (order_by_desc (\<lambda>r. date (fst r)) (with_category_name d))))"

text \<open>
  The values of \<^verbatim>\<open>strftime('%Y-%m', date)\<close> on the dates of the examples.
\<close>

definition example_strftime_ym :: "string \<Rightarrow> string option" where
  "example_strftime_ym =
     map_of [(''2024-03-01'', ''2024-03''), (''2024-03-15'', ''2024-03''),
             (''2024-03-20'', ''2024-03''), (''2024-04-02'', ''2024-04'')]"

section \<open>Reports handler\<close>

record breakdown =
  br_id :: int
  br_name :: string
  actual :: real
  budgeted :: real

record summary =
  s_month :: string
  total_income :: real
  total_expenses :: real
  net :: real
  category_breakdown :: "breakdown list"

text \<open>\<^verbatim>\<open>WHERE strftime('%Y-%m', date) = ?\<close>\<close>

definition dated_in :: "(string \<Rightarrow> string option) \<Rightarrow> string \<Rightarrow> transaction \<Rightarrow> bool" where
  "dated_in strftime_ym m t \<longleftrightarrow> strftime_ym (date t) = Some m"

text \<open>\<^verbatim>\<open>CASE WHEN type = ? THEN amount ELSE 0 END\<close>\<close>

definition amount_if :: "string \<Rightarrow> transaction \<Rightarrow> real" where
  "amount_if ty t = (if type t = ty then amount t else 0)"

text \<open>
  The totals query: one row with the two sums over the transactions of the month, both
  NULL when the month has no transaction.
\<close>

definition totals :: "(string \<Rightarrow> string option) \<Rightarrow> db \<Rightarrow> string \<Rightarrow> real option \<times> real option" where
  "totals strftime_ym d m =
     (case filter (dated_in strftime_ym m) (transactions d) of
        [] \<Rightarrow> (None, None)
      | t # ts \<Rightarrow> (Some (sum_list (map (amount_if ''income'') (t # ts))),
                  Some (sum_list (map (amount_if ''expense'') (t # ts)))))"

text \<open>\<^verbatim>\<open>value || 0\<close> on a number or NULL.\<close>

fun or_zero :: "real option \<Rightarrow> real" where
  "or_zero None = 0"
| "or_zero (Some v) = (if v = 0 then 0 else v)"

text \<open>\<^verbatim>\<open>GROUP BY key\<close>: the distinct keys, each with its rows.\<close>

definition group_by :: "('r \<Rightarrow> 'k) \<Rightarrow> 'r list \<Rightarrow> ('k \<times> 'r list) list" where
  "group_by key rows = map (\<lambda>k. (k, filter (\<lambda>r. key r = k) rows)) (remdups (map key rows))"

text \<open>
  The breakdown query. Its rows are \<open>((c, t), mb)\<close> with \<open>t\<close> and \<open>mb\<close> NULL where the left
  joins found nothing; \<^verbatim>\<open>t.type = 'expense'\<close> is not true on a NULL \<open>t\<close>, so such a row
  adds 0 to the sum. Every group has a row and every summand is a number, so the SUM is
  never NULL and the COALESCE around it never applies.
\<close>

type_synonym joined = "(category \<times> transaction option) \<times> monthly_budget option"

definition joined_rows :: "(string \<Rightarrow> string option) \<Rightarrow> db \<Rightarrow> string \<Rightarrow> joined list" where
  "joined_rows strftime_ym d m =
     filter (\<lambda>r. is_active (fst (fst r)) = 1)
       (left_join (\<lambda>ct mb. cat_id (fst ct) = mb_category_id mb \<and> month mb = m)
          (left_join (\<lambda>c t. cat_id c = category_id t \<and> dated_in strftime_ym m t)
             (categories d) (transactions d))
          (monthly_budgets d))"

definition group_key :: "joined \<Rightarrow> int \<times> string \<times> real option" where
  "group_key r = (cat_id (fst (fst r)), name (fst (fst r)), map_option budget_amount (snd r))"

definition expense_of :: "joined \<Rightarrow> real" where
  "expense_of r = (case snd (fst r) of None \<Rightarrow> 0 | Some t \<Rightarrow> amount_if ''expense'' t)"

definition select_breakdown :: "(int \<times> string \<times> real option) \<times> joined list \<Rightarrow> breakdown" where
  "select_breakdown g =
     \<lparr>br_id = fst (fst g), br_name = fst (snd (fst g)),
      actual = sum_list (map expense_of (snd g)),
      budgeted = (case snd (snd (fst g)) of None \<Rightarrow> 0 | Some b \<Rightarrow> b)\<rparr>"

definition categoryBreakdown :: "(string \<Rightarrow> string option) \<Rightarrow> db \<Rightarrow> string \<Rightarrow> breakdown list" where
  "categoryBreakdown strftime_ym d m =
     order_by_desc actual
       (map select_breakdown (group_by group_key (joined_rows strftime_ym d m)))"

definition getSummary ::
  "(string \<Rightarrow> string option) \<Rightarrow> db \<Rightarrow> string option \<Rightarrow> summary response" where
  "getSummary strftime_ym d q =
     (case q of
        Some (c # cs) \<Rightarrow>
          (let totalIncome = or_zero (fst (totals strftime_ym d (c # cs)));
               totalExpenses = or_zero (snd (totals strftime_ym d (c # cs)))
           in jsonResponse
                \<lparr>s_month = c # cs, total_income = totalIncome, total_expenses = totalExpenses,
                 net = totalIncome - totalExpenses,
                 category_breakdown = categoryBreakdown strftime_ym d (c # cs)\<rparr>)
      | _ \<Rightarrow> errorResponse (Text ''Month parameter is required''))"

text \<open>The payload of a success response.\<close>

fun payload :: "'a response \<Rightarrow> 'a option" where
  "payload (JsonResponse x _) = Some x"
| "payload (ErrorResponse _ _) = None"

text \<open>
  The rows \<^verbatim>\<open>loadDashboard\<close> puts in the category table:
  \<^verbatim>\<open>if (cat.actual > 0 || cat.budgeted > 0)\<close>.
\<close>

definition displayed :: "breakdown list \<Rightarrow> breakdown list" where
  "displayed rows = filter (\<lambda>cat. actual cat > 0 \<or> budgeted cat > 0) rows"

text \<open>
  The breakdown entry of a category as the specification words it: the sum of the
  amounts of its expense transactions dated in the month, and its budget amount for the
  month, 0 where there is no budget row.
\<close>

definition breakdown_entry :: "(string \<Rightarrow> string option) \<Rightarrow> db \<Rightarrow> string \<Rightarrow> category \<Rightarrow> breakdown" where
  "breakdown_entry strftime_ym d m c =
     \<lparr>br_id = cat_id c, br_name = name c,
      actual = sum_list (map amount
                 (filter (\<lambda>t. category_id t = cat_id c \<and> type t = ''expense''
                              \<and> dated_in strftime_ym m t) (transactions d))),
      budgeted = (case filter (\<lambda>b. mb_category_id b = cat_id c \<and> month b = m) (monthly_budgets d) of
                    [] \<Rightarrow> 0 | b # bs \<Rightarrow> budget_amount b)\<rparr>"

text \<open>
  Auxiliary notions for reasoning about the breakdown query: the budget row the second
  left join attaches to a category, the joined rows of one category, and the UNIQUE
  constraint of \<^verbatim>\<open>monthly_budgets\<close> on (month, category_id).
\<close>

definition budget_of :: "db \<Rightarrow> string \<Rightarrow> category \<Rightarrow> monthly_budget option" where
  "budget_of d m c =
     (case filter (\<lambda>mb. cat_id c = mb_category_id mb \<and> month mb = m) (monthly_budgets d) of
        [] \<Rightarrow> None | z # zs \<Rightarrow> Some z)"

definition block :: "(string \<Rightarrow> string option) \<Rightarrow> db \<Rightarrow> string \<Rightarrow> category \<Rightarrow> joined list" where
  "block strftime_ym d m c =
     map (\<lambda>t. ((c, t), budget_of d m c))
       (matches (\<lambda>t. cat_id c = category_id t \<and> dated_in strftime_ym m t) (transactions d))"

definition budgets_unique :: "db \<Rightarrow> bool" where
  "budgets_unique d \<longleftrightarrow> distinct (map (\<lambda>b. (month b, mb_category_id b)) (monthly_budgets d))"

section \<open>Budget handlers\<close>

text \<open>An element of the \<^verbatim>\<open>budgets\<close> array, as far as the handler reads it.\<close>

record budget_body =
  bb_category_id :: "int field"
  bb_budget_amount :: "real field"

text \<open>\<^verbatim>\<open>DO UPDATE SET budget_amount = excluded.budget_amount, updated_at = CURRENT_TIMESTAMP\<close>
  on the row in conflict.\<close>

definition set_budget :: "string \<Rightarrow> int \<Rightarrow> real \<Rightarrow> timestamp \<Rightarrow> monthly_budget \<Rightarrow> monthly_budget" where
  "set_budget mo ci am now b =
     (if month b = mo \<and> mb_category_id b = ci
      then b\<lparr>budget_amount := am, updated_at := now\<rparr> else b)"

text \<open>
  \<^verbatim>\<open>INSERT INTO monthly_budgets (month, category_id, budget_amount) VALUES (?, ?, ?)
  ON CONFLICT(month, category_id) DO UPDATE SET \<dots>\<close>. NOT NULL is checked first. With a row
  for the same month and category the statement updates that row; otherwise it inserts
  a new row (created and updated now) if the category exists. Either way the statement
  takes a rowid from the AUTOINCREMENT counter.
\<close>

definition upsert_budget ::
  "db \<Rightarrow> timestamp \<Rightarrow> string option \<Rightarrow> int option \<Rightarrow> real option \<Rightarrow> store_error + db" where
  "upsert_budget d now mo ci am =
     (case mo of None \<Rightarrow> Inl (NotNullFailed ''monthly_budgets.month'') | Some mo' \<Rightarrow>
      case ci of None \<Rightarrow> Inl (NotNullFailed ''monthly_budgets.category_id'') | Some ci' \<Rightarrow>
      case am of None \<Rightarrow> Inl (NotNullFailed ''monthly_budgets.budget_amount'') | Some am' \<Rightarrow>
      if \<exists>b\<in>set (monthly_budgets d). month b = mo' \<and> mb_category_id b = ci'
        then Inr (d\<lparr>monthly_budgets := map (set_budget mo' ci' am' now) (monthly_budgets d),
                    seq_monthly_budgets := seq_monthly_budgets d + 1\<rparr>)
      else if ci' \<notin> set (map cat_id (categories d)) then Inl ForeignKeyFailed
      else Inr (d\<lparr>monthly_budgets := monthly_budgets d @
                    [\<lparr>mb_id = seq_monthly_budgets d + 1, month = mo', mb_category_id = ci',
                      budget_amount = am', mb_created_at = now, updated_at = now\<rparr>],
                  seq_monthly_budgets := seq_monthly_budgets d + 1\<rparr>))"

text \<open>
  The loop of \<^verbatim>\<open>saveBudgets\<close>: \<^verbatim>\<open>if (category_id && budget_amount !== undefined)\<close> then
  the upsert; a failed statement leaves the loop for the catch clause.
\<close>

fun save_loop ::
  "(nat \<Rightarrow> timestamp) \<Rightarrow> nat \<Rightarrow> db \<Rightarrow> string \<Rightarrow> budget_body list \<Rightarrow> store_error option \<times> db" where
  "save_loop clock k d mo [] = (None, d)"
| "save_loop clock k d mo (budget # rest) =
     (if truthy_num (bb_category_id budget) \<and> bb_budget_amount budget \<noteq> Undefined then
        case upsert_budget d (clock k) (Some mo) (sql_value (bb_category_id budget))
               (sql_value (bb_budget_amount budget)) of
          Inl e \<Rightarrow> (Some e, d)
        | Inr d' \<Rightarrow> save_loop clock (Suc k) d' mo rest
      else save_loop clock (Suc k) d mo rest)"

text \<open>
  \<open>mo\<close> is the \<^verbatim>\<open>month\<close> property of the body and \<open>budgets\<close> its \<^verbatim>\<open>budgets\<close> property,
  \<open>None\<close> when that is not an array.
\<close>

definition saveBudgets ::
  "db \<Rightarrow> (nat \<Rightarrow> timestamp) \<Rightarrow> string field \<Rightarrow> budget_body list option \<Rightarrow> string response \<times> db" where
  "saveBudgets d clock mo budgets =
     (case (mo, budgets) of
        (Val (c # cs), Some bs) \<Rightarrow>
          (case save_loop clock 0 d (c # cs) bs of
             (Some e, d') \<Rightarrow> (ErrorResponse (EngineMessage e) 500, d')
           | (None, d') \<Rightarrow> (jsonResponse ''Budgets saved successfully'', d'))
      | _ \<Rightarrow> (errorResponse (Text ''Month and budgets array are required''), d))"

text \<open>A request that saves one amount for one category.\<close>

definition budget_request :: "int \<Rightarrow> real \<Rightarrow> budget_body list option" where
  "budget_request ci am = Some [\<lparr>bb_category_id = Val ci, bb_budget_amount = Val am\<rparr>]"

text \<open>The database after a request that saves one amount for one category of a month.\<close>

definition save_once :: "db \<Rightarrow> (nat \<Rightarrow> timestamp) \<Rightarrow> string \<Rightarrow> int \<Rightarrow> real \<Rightarrow> db" where
  "save_once d clock m ci am = snd (saveBudgets d clock (Val m) (budget_request ci am))"

text \<open>A budget row without its creation time.\<close>

definition forget_created :: "monthly_budget \<Rightarrow> monthly_budget" where
  "forget_created b = b\<lparr>mb_created_at := []\<rparr>"

definition morning :: "nat \<Rightarrow> timestamp" where
  "morning k = ''2024-04-01 08:00:00''"

definition evening :: "nat \<Rightarrow> timestamp" where
  "evening k = ''2024-04-01 20:00:00''"

section \<open>Client: CSV import mapping\<close>

text \<open>
  A JavaScript number: NaN, the two infinities, or a finite value, taken as the real
  number it denotes.
\<close>

datatype jsnum = NaN | Infinity | NegInfinity | Num real

fun Math_abs :: "jsnum \<Rightarrow> jsnum" where
  "Math_abs NaN = NaN"
| "Math_abs Infinity = Infinity"
| "Math_abs NegInfinity = Infinity"
| "Math_abs (Num r) = Num \<bar>r\<bar>"

fun isNaN :: "jsnum \<Rightarrow> bool" where
  "isNaN NaN = True"
| "isNaN _ = False"

text \<open>
  \<^verbatim>\<open>.replace(/[$,]/g, '')\<close>. Both characters are ASCII, so removing their bytes from
  the UTF-8 form of a text removes exactly their occurrences.
\<close>

definition strip_currency :: "string \<Rightarrow> string" where
  "strip_currency s = filter (\<lambda>c. c \<noteq> CHR ''$'' \<and> c \<noteq> CHR '','') s"

text \<open>
  A parsed CSV row is an object keyed by header; reading a key gives a string or
  undefined (\<open>None\<close>): \<^verbatim>\<open>parseCSV\<close> stores \<^verbatim>\<open>values[index]\<close> under each header, which is
  undefined where the line has fewer cells than the header line. The transaction the
  mapping builds has the row's date and description, which may be undefined.
\<close>

type_synonym csv_row = "string \<Rightarrow> string option"

record csv_txn =
  c_date :: "string option"
  c_description :: "string option"
  c_amount :: jsnum
  c_type :: string
  c_category_id :: int
  c_source :: string

text \<open>Truthiness of a cell: defined and not empty.\<close>

fun truthy_cell :: "string option \<Rightarrow> bool" where
  "truthy_cell (Some (c # cs)) = True"
| "truthy_cell _ = False"

text \<open>
  The date of a row. \<open>Date_parse raw\<close> stands for \<^verbatim>\<open>new Date(raw)\<close> followed by
  \<^verbatim>\<open>toISOString().split('T')[0]\<close>: the calendar date in ISO form, or \<open>None\<close> when the
  text is not a valid date. It belongs to the JavaScript engine and is a parameter.
\<close>

definition normalize_date :: "(string \<Rightarrow> string option) \<Rightarrow> string option \<Rightarrow> string option" where
  "normalize_date Date_parse cell =
     (case cell of
        Some (c # cs) \<Rightarrow> (case Date_parse (c # cs) of Some isodate \<Rightarrow> Some isodate | None \<Rightarrow> cell)
      | _ \<Rightarrow> cell)"

text \<open>
  The function mapped over the rows. \<open>parseFloat\<close> is the built-in of the JavaScript
  engine and is a parameter, like \<open>Date_parse\<close>. Calling \<^verbatim>\<open>replace\<close> on an undefined
  amount cell throws a TypeError (\<open>None\<close>).
\<close>

definition map_row ::
  "(string \<Rightarrow> string option) \<Rightarrow> (string \<Rightarrow> jsnum) \<Rightarrow> string \<Rightarrow> string \<Rightarrow> string \<Rightarrow> string \<Rightarrow> int
     \<Rightarrow> csv_row \<Rightarrow> csv_txn option" where
  "map_row Date_parse parseFloat dateColumn descColumn amountColumn defaultType defaultCategory
       row =
     (case row amountColumn of
        None \<Rightarrow> None
      | Some raw \<Rightarrow>
          Some \<lparr>c_date = normalize_date Date_parse (row dateColumn),
                c_description = row descColumn,
                c_amount = Math_abs (parseFloat (strip_currency raw)),
                c_type = defaultType, c_category_id = defaultCategory, c_source = ''csv''\<rparr>)"

text \<open>
  \<^verbatim>\<open>handleCSVImport\<close> up to the call of \<^verbatim>\<open>importTransactions\<close>: the list it submits, whose
  length is the count it reports, or \<open>None\<close> when the mapping threw. The mapping runs
  before the \<^verbatim>\<open>try\<close> block, so then nothing is submitted and nothing is reported.
\<close>

definition handleCSVImport ::
  "(string \<Rightarrow> string option) \<Rightarrow> (string \<Rightarrow> jsnum) \<Rightarrow> string \<Rightarrow> string \<Rightarrow> string \<Rightarrow> string \<Rightarrow> int
     \<Rightarrow> csv_row list \<Rightarrow> csv_txn list option" where
  "handleCSVImport Date_parse parseFloat dateColumn descColumn amountColumn defaultType
       defaultCategory parsedCSVData =
     map_option
       (filter (\<lambda>txn. truthy_cell (c_date txn) \<and> truthy_cell (c_description txn)
                      \<and> \<not> isNaN (c_amount txn)))
       (those (map (map_row Date_parse parseFloat dateColumn descColumn amountColumn defaultType
                      defaultCategory) parsedCSVData))"

text \<open>
  The transaction a row is mapped to when it has an amount cell, and the rows that
  are submitted, both stated on the row.
\<close>

definition mapped ::
  "(string \<Rightarrow> string option) \<Rightarrow> (string \<Rightarrow> jsnum) \<Rightarrow> string \<Rightarrow> string \<Rightarrow> string \<Rightarrow> string \<Rightarrow> int
     \<Rightarrow> csv_row \<Rightarrow> csv_txn" where
  "mapped Date_parse parseFloat dateColumn descColumn amountColumn defaultType defaultCategory
       row =
     \<lparr>c_date = normalize_date Date_parse (row dateColumn),
      c_description = row descColumn,
      c_amount = Math_abs (parseFloat (strip_currency (the (row amountColumn)))),
      c_type = defaultType, c_category_id = defaultCategory, c_source = ''csv''\<rparr>"

definition submitted ::
  "(string \<Rightarrow> string option) \<Rightarrow> (string \<Rightarrow> jsnum) \<Rightarrow> string \<Rightarrow> string \<Rightarrow> string \<Rightarrow> csv_row
     \<Rightarrow> bool" where
  "submitted Date_parse parseFloat dateColumn descColumn amountColumn row \<longleftrightarrow>
     truthy_cell (normalize_date Date_parse (row dateColumn))
     \<and> truthy_cell (row descColumn)
     \<and> parseFloat (strip_currency (the (row amountColumn))) \<noteq> NaN"

section \<open>Example data\<close>

definition example_categories :: "category list" where
  "example_categories =
     [\<lparr>cat_id = 1, name = ''Housing'', is_active = 1, cat_created_at = ''2024-01-01 00:00:00''\<rparr>,
      \<lparr>cat_id = 2, name = ''Groceries'', is_active = 1, cat_created_at = ''2024-01-01 00:00:00''\<rparr>,
      \<lparr>cat_id = 3, name = ''Savings'', is_active = 0, cat_created_at = ''2024-01-01 00:00:00''\<rparr>]"

definition example_transactions :: "transaction list" where
  "example_transactions =
     [\<lparr>txn_id = 1, date = ''2024-03-01'', description = ''Rent'', amount = 1500,
       type = ''expense'', category_id = 1, source = Some ''manual'',
       created_at = ''2024-03-01 09:00:00''\<rparr>,
      \<lparr>txn_id = 2, date = ''2024-03-15'', description = ''Salary'', amount = 4000,
       type = ''income'', category_id = 3, source = Some ''manual'',
       created_at = ''2024-03-15 09:00:00''\<rparr>,
      \<lparr>txn_id = 3, date = ''2024-03-20'', description = ''Deposit'', amount = 250,
       type = ''expense'', category_id = 3, source = Some ''csv'',
       created_at = ''2024-03-20 09:00:00''\<rparr>,
      \<lparr>txn_id = 4, date = ''2024-04-02'', description = ''Market'', amount = 80,
       type = ''expense'', category_id = 2, source = Some ''manual'',
       created_at = ''2024-04-02 09:00:00''\<rparr>]"

definition example_budgets :: "monthly_budget list" where
  "example_budgets =
     [\<lparr>mb_id = 1, month = ''2024-03'', mb_category_id = 1, budget_amount = 1600,
       mb_created_at = ''2024-03-01 08:00:00'', updated_at = ''2024-03-01 08:00:00''\<rparr>]"

definition example_db :: db where
  "example_db =
     \<lparr>categories = example_categories, transactions = example_transactions,
      monthly_budgets = example_budgets, seq_transactions = 4, seq_monthly_budgets = 1\<rparr>"

definition example_clock :: "nat \<Rightarrow> timestamp" where
  "example_clock k = ''2024-03-21 10:00:00''"

definition rent_element :: txn_body where
  "rent_element =
     \<lparr>b_date = Val ''2024-03-01'', b_description = Val ''Rent'', b_amount = Val 1500,
      b_type = Val ''expense'', b_category_id = Val 1, b_source = Val ''csv''\<rparr>"

definition market_element :: txn_body where
  "market_element =
     \<lparr>b_date = Val ''2024-03-02'', b_description = Val ''Market'', b_amount = Val 42,
      b_type = Val ''expense'', b_category_id = Val 2, b_source = Undefined\<rparr>"

definition undated_element :: txn_body where
  "undated_element =
     \<lparr>b_date = Undefined, b_description = Val ''Cash'', b_amount = Val 20,
      b_type = Val ''expense'', b_category_id = Val 2, b_source = Val ''csv''\<rparr>"

definition transfer_element :: txn_body where
  "transfer_element =
     \<lparr>b_date = Val ''2024-03-03'', b_description = Val ''To savings'', b_amount = Val 100,
      b_type = Val ''transfer'', b_category_id = Val 1, b_source = Val ''csv''\<rparr>"

definition null_amount_body :: txn_body where
  "null_amount_body =
     \<lparr>b_date = Val ''2024-03-04'', b_description = Val ''Coffee'', b_amount = Null,
      b_type = Val ''expense'', b_category_id = Val 2, b_source = Undefined\<rparr>"

definition refund_body :: txn_body where
  "refund_body =
     \<lparr>b_date = Val ''2024-03-05'', b_description = Val ''Refund'', b_amount = Val (- 5),
      b_type = Val ''expense'', b_category_id = Val 1, b_source = Undefined\<rparr>"

text \<open>
  The values of the two engine functions on the texts of the examples: the dates, and
  the amounts without \<^verbatim>\<open>$\<close> and \<^verbatim>\<open>,\<close>. Every amount of the examples is a double.
\<close>

definition example_Date_parse :: "string \<Rightarrow> string option" where
  "example_Date_parse =
     map_of [(''2024-03-01'', ''2024-03-01''), (''2024-03-02'', ''2024-03-02''),
             (''March 5, 2024'', ''2024-03-05'')]"

definition example_parseFloat :: "string \<Rightarrow> jsnum" where
  "example_parseFloat s =
     (case map_of [(''1500'', Num 1500), (''1200.50'', Num 1200.5), (''-45.50'', Num (- 45.5)),
                   (''7'', Num 7), (''12'', Num 12), (''n/a'', NaN)] s of
        Some x \<Rightarrow> x
      | None \<Rightarrow> NaN)"

definition example_rows :: "csv_row list" where
  "example_rows =
     [map_of [(''Date'', ''2024-03-01''), (''Memo'', ''Rent''), (''Amount'', ''$1,500'')],
      map_of [(''Date'', ''2024-03-02''), (''Memo'', ''Bonus''), (''Amount'', ''$1,200.50'')],
      map_of [(''Date'', ''March 5, 2024''), (''Memo'', ''Card''), (''Amount'', ''-45.50'')],
      map_of [(''Date'', ''someday''), (''Memo'', ''Gift''), (''Amount'', ''7'')],
      map_of [(''Date'', ''2024-03-01''), (''Memo'', ''Fee''), (''Amount'', ''n/a'')],
      map_of [(''Date'', ''2024-03-01''), (''Memo'', ''''), (''Amount'', ''12'')],
      map_of [(''Date'', ''''), (''Memo'', ''Cash''), (''Amount'', ''12'')]]"

text \<open>
  Rows that \<^verbatim>\<open>parseCSV\<close> builds from a file whose header line is \<^verbatim>\<open>Date,Memo,Amount\<close>:
  the row of the line \<^verbatim>\<open>2024-03-01,Rent,$1500\<close>; the row of the line
  \<^verbatim>\<open>2024-03-02,Bonus\<close>, which has no third cell; and the row of an empty line in the
  middle of the file, which has one empty cell.
\<close>

definition rent_row :: csv_row where
  "rent_row = map_of [(''Date'', ''2024-03-01''), (''Memo'', ''Rent''), (''Amount'', ''$1500'')]"

definition short_row :: csv_row where
  "short_row = map_of [(''Date'', ''2024-03-02''), (''Memo'', ''Bonus'')]"

definition blank_row :: csv_row where
  "blank_row = map_of [(''Date'', [])]"

section \<open>Soft delete of a category\<close>

lemma deactivate_fields:
  "cat_id (deactivate i c) = cat_id c"
  "name (deactivate i c) = name c"
  "cat_created_at (deactivate i c) = cat_created_at c"
  by (simp_all add: deactivate_def)

lemma deactivate_is_active:
  "is_active (deactivate i c) = (if cat_id c = i then 0 else is_active c)"
  by (simp add: deactivate_def)

lemma deleteCategory_not_listed:
  "c \<in> set (listed (getCategories (snd (deleteCategory d i)))) \<Longrightarrow> cat_id c \<noteq> i"
proof
  assume listed: "c \<in> set (listed (getCategories (snd (deleteCategory d i))))" and "cat_id c = i"
  from listed obtain x where x: "c = deactivate i x" and active: "is_active c = 1"
    by (auto simp: deleteCategory_def getCategories_def jsonResponse_def)
  with \<open>cat_id c = i\<close> have "cat_id x = i"
    by (simp add: deactivate_fields)
  with x have "is_active c = 0"
    by (simp add: deactivate_is_active)
  with active show False by simp
qed

text \<open>
  C6. \<^verbatim>\<open>DELETE /api/categories/:id\<close> is a soft delete. The tables of transactions and
  budgets and both counters are the same afterwards; the categories table has the same
  rows in the same places, each with its id, name and creation time, the rows with the
  given id now inactive and every other row as active as before; and the listing of
  \<^verbatim>\<open>GET /api/categories\<close> on the new state has no row with that id.
\<close>

theorem deleteCategory_soft:
  "transactions (snd (deleteCategory d i)) = transactions d
   \<and> monthly_budgets (snd (deleteCategory d i)) = monthly_budgets d
   \<and> seq_transactions (snd (deleteCategory d i)) = seq_transactions d
   \<and> seq_monthly_budgets (snd (deleteCategory d i)) = seq_monthly_budgets d
   \<and> length (categories (snd (deleteCategory d i))) = length (categories d)
   \<and> map cat_id (categories (snd (deleteCategory d i))) = map cat_id (categories d)
   \<and> map name (categories (snd (deleteCategory d i))) = map name (categories d)
   \<and> map cat_created_at (categories (snd (deleteCategory d i))) = map cat_created_at (categories d)
   \<and> map is_active (categories (snd (deleteCategory d i)))
       = map (\<lambda>c. if cat_id c = i then 0 else is_active c) (categories d)
   \<and> i \<notin> cat_id ` set (listed (getCategories (snd (deleteCategory d i))))
   \<and> status (fst (deleteCategory d i)) = 200"
proof -
  have "i \<notin> cat_id ` set (listed (getCategories (snd (deleteCategory d i))))"
    using deleteCategory_not_listed by blast
  then show ?thesis
    by (simp add: deleteCategory_def jsonResponse_def comp_def
        deactivate_fields deactivate_is_active)
qed

theorem deleteCategory_soft_witness:
  "transactions (snd (deleteCategory example_db 2)) = example_transactions
   \<and> map is_active (categories (snd (deleteCategory example_db 2))) = [1, 0, 0]
   \<and> map name (listed (getCategories example_db)) = [''Groceries'', ''Housing'']
   \<and> map name (listed (getCategories (snd (deleteCategory example_db 2)))) = [''Housing'']"
  using deleteCategory_soft [of example_db 2]
  by (simp add: example_db_def example_categories_def deleteCategory_def getCategories_def
      jsonResponse_def deactivate_def less_eq_char_def less_char_def)

section \<open>The import loop\<close>

lemma insert_transaction_Inr:
  assumes "insert_transaction d now dt ds am ty ci so = Inr d'"
  shows "categories d' = categories d" "monthly_budgets d' = monthly_budgets d"
    "seq_monthly_budgets d' = seq_monthly_budgets d"
    "\<exists>t. transactions d' = transactions d @ [t] \<and> stored_values t = (dt, ds, am, ty, ci, so)"
  using assms
  by (auto simp: insert_transaction_def stored_values_def split: option.splits if_splits)

lemma insert_transaction_error:
  "categories d' = categories d \<Longrightarrow>
   (case insert_transaction d' now' dt ds am ty ci so of Inl e \<Rightarrow> Some e | Inr x \<Rightarrow> None)
     = (case insert_transaction d now dt ds am ty ci so of Inl e \<Rightarrow> Some e | Inr x \<Rightarrow> None)"
  by (simp add: insert_transaction_def split: option.splits)

lemma rejection_categories:
  "categories d' = categories d \<Longrightarrow> rejection d' txn = rejection d txn"
  unfolding rejection_def by (rule insert_transaction_error)

lemma rejection_at:
  "rejection d txn =
     (case insert_transaction d now (sql_value (b_date txn))
             (sql_value (b_description txn)) (sql_value (b_amount txn))
             (sql_value (b_type txn)) (sql_value (b_category_id txn))
             (sql_value (or_default ''csv'' (b_source txn))) of
        Inl e \<Rightarrow> Some e
      | Inr d' \<Rightarrow> None)"
  unfolding rejection_def by (rule insert_transaction_error) simp

lemma first_rejection_None:
  "first_rejection d txns = None \<longleftrightarrow> (\<forall>txn\<in>set txns. passes d txn)"
proof (cases "dropWhile (passes d) txns")
  case Nil
  then have "\<forall>txn\<in>set txns. passes d txn" by (simp only: dropWhile_eq_Nil_conv)
  moreover have "first_rejection d txns = None"
    by (simp only: first_rejection_def Nil list.case)
  ultimately show ?thesis by simp
next
  case (Cons txn rest)
  then have "\<not> passes d txn" using hd_dropWhile [of "passes d" txns] by simp
  moreover from Cons have "\<not> (\<forall>txn\<in>set txns. passes d txn)"
    by (metis dropWhile_eq_Nil_conv list.distinct(1))
  moreover have "first_rejection d txns = rejection d txn"
    by (simp only: first_rejection_def Cons list.case)
  ultimately show ?thesis
    by (auto simp: passes_def store_accepts_def)
qed

lemma checked_Cons:
  "checked (txn # rest) = (if missing_required txn then checked rest else txn # checked rest)"
  by (simp add: checked_def)

lemma checked_Nil: "checked [] = []"
  by (simp add: checked_def)

lemma first_rejection_Cons:
  "first_rejection d (txn # rest)
     = (if passes d txn then first_rejection d rest else rejection d txn)"
  by (simp add: first_rejection_def)

lemma import_spec_Nil: "import_spec d imported [] (Inr imported, d)"
  by (simp add: import_spec_def kept_def inserted_def checked_def first_rejection_def)

lemma import_spec_skip:
  assumes "missing_required txn" and "import_spec d imported rest r"
  shows "import_spec d imported (txn # rest) r"
  using assms
  by (simp add: import_spec_def passes_def checked_Cons first_rejection_Cons)

lemma import_spec_fail:
  assumes "\<not> missing_required txn" and "rejection d txn = Some e"
  shows "import_spec d imported (txn # rest) (Inl e, d)"
  using assms
  by (simp add: import_spec_def passes_def store_accepts_def kept_def inserted_def
      checked_Cons checked_Nil first_rejection_Cons)

lemma kept_step:
  assumes "transactions d1 = transactions d @ [t]" and "kept d1 d'"
  shows "kept d d'" and "inserted d d' = t # inserted d1 d'"
proof -
  define rest where "rest = inserted d1 d'"
  have "transactions d' = take (length (transactions d1)) (transactions d') @ rest"
    by (simp add: rest_def inserted_def)
  with assms have eq: "transactions d' = transactions d @ t # rest"
    by (simp add: kept_def)
  show "kept d d'" by (simp add: kept_def eq)
  show "inserted d d' = t # inserted d1 d'"
    unfolding rest_def [symmetric] by (simp add: inserted_def eq)
qed

lemma import_spec_insert:
  assumes valid: "\<not> missing_required txn" and acc: "store_accepts d txn"
    and cats: "categories d1 = categories d" and buds: "monthly_budgets d1 = monthly_budgets d"
    and seq: "seq_monthly_budgets d1 = seq_monthly_budgets d"
    and t: "transactions d1 = transactions d @ [t]" "stored_values t = bound_values ''csv'' txn"
    and rest: "import_spec d1 (imported + 1) rest r"
  shows "import_spec d imported (txn # rest) r"
proof -
  have same: "passes d1 = passes d"
    by (rule ext) (simp add: passes_def store_accepts_def rejection_categories [OF cats])
  have "rejection d1 = rejection d"
    by (rule ext) (rule rejection_categories [OF cats])
  then have "first_rejection d1 rest = first_rejection d rest"
    unfolding first_rejection_def same by (rule arg_cong)
  then have same_first: "first_rejection d1 rest = first_rejection d (txn # rest)"
    using acc by (simp add: first_rejection_Cons passes_def)
  have p: "passes d txn" using acc by (simp add: passes_def)
  from rest have k1: "kept d1 (snd r)" by (simp add: import_spec_def)
  note step = kept_step [OF t(1) k1]
  from rest have "map stored_values (inserted d1 (snd r))
      = map (bound_values ''csv'') (checked (takeWhile (passes d) rest))"
    by (simp add: import_spec_def same)
  then have new: "map stored_values (inserted d (snd r))
      = map (bound_values ''csv'') (checked (takeWhile (passes d) (txn # rest)))"
    using valid p by (simp add: step(2) t(2) checked_def)
  from rest have others: "categories (snd r) = categories d"
    "monthly_budgets (snd r) = monthly_budgets d"
    "seq_monthly_budgets (snd r) = seq_monthly_budgets d"
    using cats buds seq by (simp_all add: import_spec_def)
  from rest have res: "first_rejection d (txn # rest) = None \<longrightarrow>
      fst r = Inr (imported + length (checked (txn # rest)))"
    "\<forall>e. first_rejection d (txn # rest) = Some e \<longrightarrow> fst r = Inl e"
    using valid by (simp_all add: import_spec_def same_first checked_Cons)
  show ?thesis
    unfolding import_spec_def by (intro conjI others step(1) new res)
qed

lemma import_loop_spec:
  "import_spec d imported txns (import_loop clock k d imported txns)"
proof (induction txns arbitrary: k d imported)
  case Nil
  show ?case by (simp add: import_spec_Nil)
next
  case (Cons txn rest)
  show ?case
  proof (cases "missing_required txn")
    case True
    then show ?thesis using Cons.IH [of d imported "Suc k"] by (simp add: import_spec_skip)
  next
    case False
    show ?thesis
    proof (cases "insert_transaction d (clock k) (sql_value (b_date txn))
               (sql_value (b_description txn)) (sql_value (b_amount txn))
               (sql_value (b_type txn)) (sql_value (b_category_id txn))
               (sql_value (or_default ''csv'' (b_source txn)))")
      case (Inl e)
      then have "rejection d txn = Some e"
        by (simp add: rejection_at [of d txn "clock k"])
      then show ?thesis using Inl False by (simp add: import_spec_fail)
    next
      case (Inr d1)
      then have acc: "store_accepts d txn"
        by (simp add: store_accepts_def rejection_at [of d txn "clock k"])
      note ins = insert_transaction_Inr [OF Inr]
      from ins(4) obtain t where t: "transactions d1 = transactions d @ [t]"
        "stored_values t = bound_values ''csv'' txn"
        by (auto simp: bound_values_def)
      have "import_spec d imported (txn # rest) (import_loop clock (Suc k) d1 (imported + 1) rest)"
        by (rule import_spec_insert [OF False acc ins(1) ins(2) ins(3) t Cons.IH])
      then show ?thesis using Inr False by simp
    qed
  qed
qed

text \<open>
  C5 (amended). \<^verbatim>\<open>POST /api/transactions/import\<close> with an array. The categories, the
  budgets and the transactions already stored are unchanged. Each element is checked on
  its own for date, description, amount, type and category_id, and an element failing the
  check is skipped. When the store accepts every element that passes the check, the
  rows inserted are exactly those elements, in order, with source csv where none was
  given, and the response reports their number. When the store rejects one of them,
  the response is 500 with the store's message for the first rejected element, the
  rows inserted are the checked elements before it, and nothing after it is inserted.
\<close>

theorem importTransactions_partial:
  assumes "importTransactions d clock (Some txns) = (r, d')"
  shows "categories d' = categories d \<and> monthly_budgets d' = monthly_budgets d \<and> kept d d'
    \<and> ((\<forall>txn\<in>set txns. \<not> missing_required txn \<longrightarrow> store_accepts d txn) \<longrightarrow>
          r = JsonResponse (length (checked txns)) 200
          \<and> map stored_values (inserted d d') = map (bound_values ''csv'') (checked txns))
    \<and> (\<not> (\<forall>txn\<in>set txns. \<not> missing_required txn \<longrightarrow> store_accepts d txn) \<longrightarrow>
          (\<exists>e. first_rejection d txns = Some e \<and> r = ErrorResponse (EngineMessage e) 500)
          \<and> map stored_values (inserted d d')
              = map (bound_values ''csv'') (checked (takeWhile (passes d) txns)))"
proof -
  define ok where "ok \<longleftrightarrow> (\<forall>txn\<in>set txns. passes d txn)"
  obtain res d1 where loop: "import_loop clock 0 d 0 txns = (res, d1)"
    by (cases "import_loop clock 0 d 0 txns")
  have spec: "import_spec d 0 txns (res, d1)"
    using import_loop_spec [of d 0 txns clock 0] by (simp add: loop)
  from assms loop have d1: "d1 = d'"
    by (cases res) (simp_all add: importTransactions_def)
  have all: "(\<forall>txn\<in>set txns. \<not> missing_required txn \<longrightarrow> store_accepts d txn) \<longleftrightarrow> ok"
    by (auto simp: ok_def passes_def)
  from spec have frame: "categories d' = categories d" "monthly_budgets d' = monthly_budgets d"
    "kept d d'"
    by (simp_all add: import_spec_def d1)
  from spec have rows: "map stored_values (inserted d d')
      = map (bound_values ''csv'') (checked (takeWhile (passes d) txns))"
    by (simp add: import_spec_def d1)
  from spec have res: "first_rejection d txns = None \<Longrightarrow> res = Inr (length (checked txns))"
    "\<And>e. first_rejection d txns = Some e \<Longrightarrow> res = Inl e"
    by (simp_all add: import_spec_def)
  show ?thesis
    unfolding all
  proof (cases ok)
    case True
    then have "first_rejection d txns = None"
      by (simp only: ok_def first_rejection_None)
    then have "res = Inr (length (checked txns))" by (rule res(1))
    with assms loop have "r = JsonResponse (length (checked txns)) 200"
      by (simp add: importTransactions_def jsonResponse_def)
    moreover from True have "takeWhile (passes d) txns = txns"
      by (simp add: ok_def)
    with rows have "map stored_values (inserted d d')
      = map (bound_values ''csv'') (checked txns)"
      by (simp only:)
    ultimately show "categories d' = categories d \<and> monthly_budgets d' = monthly_budgets d
      \<and> kept d d'
      \<and> (ok \<longrightarrow> r = JsonResponse (length (checked txns)) 200
          \<and> map stored_values (inserted d d') = map (bound_values ''csv'') (checked txns))
      \<and> (\<not> ok \<longrightarrow> (\<exists>e. first_rejection d txns = Some e \<and> r = ErrorResponse (EngineMessage e) 500)
          \<and> map stored_values (inserted d d')
              = map (bound_values ''csv'') (checked (takeWhile (passes d) txns)))"
      using True frame by blast
  next
    case False
    then have "first_rejection d txns \<noteq> None"
      by (simp only: ok_def first_rejection_None not_False_eq_True)
    then obtain e where e: "first_rejection d txns = Some e" by blast
    then have "res = Inl e" by (rule res(2))
    with assms loop have "r = ErrorResponse (EngineMessage e) 500"
      by (simp add: importTransactions_def)
    with e show "categories d' = categories d \<and> monthly_budgets d' = monthly_budgets d
      \<and> kept d d'
      \<and> (ok \<longrightarrow> r = JsonResponse (length (checked txns)) 200
          \<and> map stored_values (inserted d d') = map (bound_values ''csv'') (checked txns))
      \<and> (\<not> ok \<longrightarrow> (\<exists>e. first_rejection d txns = Some e \<and> r = ErrorResponse (EngineMessage e) 500)
          \<and> map stored_values (inserted d d')
              = map (bound_values ''csv'') (checked (takeWhile (passes d) txns)))"
      using False frame rows by blast
  qed
qed

lemma example_accepts:
  "\<not> missing_required rent_element" "missing_required undated_element"
  "\<not> missing_required market_element" "\<not> missing_required transfer_element"
  "store_accepts example_db rent_element" "store_accepts example_db market_element"
  "\<not> store_accepts example_db transfer_element"
  by (simp_all add: missing_required_def store_accepts_def rejection_def insert_transaction_def
      rent_element_def undated_element_def market_element_def transfer_element_def
      example_db_def example_categories_def)

lemma example_import:
  "importTransactions example_db example_clock (Some [rent_element, undated_element, market_element])
     = (JsonResponse 2 200,
        example_db\<lparr>transactions := example_transactions @
           [\<lparr>txn_id = 5, date = ''2024-03-01'', description = ''Rent'', amount = 1500,
             type = ''expense'', category_id = 1, source = Some ''csv'',
             created_at = ''2024-03-21 10:00:00''\<rparr>,
            \<lparr>txn_id = 6, date = ''2024-03-02'', description = ''Market'', amount = 42,
             type = ''expense'', category_id = 2, source = Some ''csv'',
             created_at = ''2024-03-21 10:00:00''\<rparr>],
          seq_transactions := 6\<rparr>)"
  by (simp add: importTransactions_def missing_required_def insert_transaction_def
      rent_element_def undated_element_def market_element_def example_clock_def
      example_db_def example_categories_def jsonResponse_def)

theorem importTransactions_partial_witness:
  "importTransactions example_db example_clock (Some [rent_element, undated_element, market_element])
     = (JsonResponse 2 200,
        example_db\<lparr>transactions := example_transactions @
           [\<lparr>txn_id = 5, date = ''2024-03-01'', description = ''Rent'', amount = 1500,
             type = ''expense'', category_id = 1, source = Some ''csv'',
             created_at = ''2024-03-21 10:00:00''\<rparr>,
            \<lparr>txn_id = 6, date = ''2024-03-02'', description = ''Market'', amount = 42,
             type = ''expense'', category_id = 2, source = Some ''csv'',
             created_at = ''2024-03-21 10:00:00''\<rparr>],
          seq_transactions := 6\<rparr>)
   \<and> length (checked [rent_element, undated_element, market_element]) = 2"
  using importTransactions_partial [OF example_import] example_import
  by (simp add: checked_def example_accepts)

text \<open>
  C5 as stated fails: an element that passes the presence check with a type the schema
  does not allow makes the whole request fail, and the element after it, which passes
  the check too, is not inserted.
\<close>

theorem importTransactions_batch_counterexample:
  "\<not> missing_required transfer_element \<and> \<not> missing_required rent_element
   \<and> importTransactions example_db example_clock (Some [transfer_element, rent_element])
      = (ErrorResponse (EngineMessage (CheckFailed ''type'')) 500, example_db)"
  by (simp add: importTransactions_def missing_required_def insert_transaction_def
      rent_element_def transfer_element_def example_clock_def
      example_db_def example_categories_def)

section \<open>Creating a transaction\<close>

lemma undefined_missing:
  "b_date body = Undefined \<or> b_description body = Undefined \<or> b_amount body = Undefined
     \<or> b_type body = Undefined \<or> b_category_id body = Undefined \<Longrightarrow> missing_required body"
  by (auto simp: missing_required_def)

text \<open>
  C7. \<^verbatim>\<open>POST /api/transactions\<close>. A body without one of date, description, amount, type
  or category_id fails the presence check; a body that fails the presence check is
  answered 400 "Missing required fields" and the database is unchanged; a body that
  passes it with a type other than income and expense is answered 400 with the message
  about the type and the database is unchanged. Every other body reaches the insert:
  when the store rejects it the answer is 500 with the store's message and the database
  is unchanged, and when the store accepts it the answer is 201 and the database is the
  old one with one more row, holding the bound values.
\<close>

theorem createTransaction_validation:
  \<open>(b_date body = Undefined \<or> b_description body = Undefined \<or> b_amount body = Undefined
      \<or> b_type body = Undefined \<or> b_category_id body = Undefined \<longrightarrow> missing_required body)
   \<and> (missing_required body \<longrightarrow>
        createTransaction d now body = (ErrorResponse (Text ''Missing required fields'') 400, d))
   \<and> (\<not> missing_required body \<and> b_type body \<noteq> Val ''income'' \<and> b_type body \<noteq> Val ''expense'' \<longrightarrow>
        createTransaction d now body
          = (ErrorResponse (Text ''Type must be "income" or "expense"'') 400, d))
   \<and> (\<not> missing_required body \<and> (b_type body = Val ''income'' \<or> b_type body = Val ''expense'') \<longrightarrow>
        (case insert_transaction d now (sql_value (b_date body)) (sql_value (b_description body))
                (sql_value (b_amount body)) (sql_value (b_type body))
                (sql_value (b_category_id body))
                (sql_value (or_default ''manual'' (b_source body))) of
           Inl e \<Rightarrow> createTransaction d now body = (ErrorResponse (EngineMessage e) 500, d)
         | Inr d' \<Rightarrow>
             status (fst (createTransaction d now body)) = 201
             \<and> snd (createTransaction d now body) = d'
             \<and> kept d d'
             \<and> map stored_values (inserted d d') = [bound_values ''manual'' body]))\<close>
proof (intro conjI impI)
  assume "b_date body = Undefined \<or> b_description body = Undefined \<or> b_amount body = Undefined
      \<or> b_type body = Undefined \<or> b_category_id body = Undefined"
  then show "missing_required body" by (rule undefined_missing)
next
  assume "missing_required body"
  then show "createTransaction d now body = (ErrorResponse (Text ''Missing required fields'') 400, d)"
    by (simp add: createTransaction_def errorResponse_def)
next
  assume "\<not> missing_required body \<and> b_type body \<noteq> Val ''income'' \<and> b_type body \<noteq> Val ''expense''"
  then show \<open>createTransaction d now body
          = (ErrorResponse (Text ''Type must be "income" or "expense"'') 400, d)\<close>
    by (simp add: createTransaction_def errorResponse_def)
next
  let ?ins = "insert_transaction d now (sql_value (b_date body)) (sql_value (b_description body))
                (sql_value (b_amount body)) (sql_value (b_type body))
                (sql_value (b_category_id body))
                (sql_value (or_default ''manual'' (b_source body)))"
  assume ok: "\<not> missing_required body \<and> (b_type body = Val ''income'' \<or> b_type body = Val ''expense'')"
  then have run: "createTransaction d now body =
      (case ?ins of Inl e \<Rightarrow> (ErrorResponse (EngineMessage e) 500, d)
       | Inr d' \<Rightarrow> (JsonResponse (seq_transactions d',
                       body\<lparr>b_source := or_default ''manual'' (b_source body)\<rparr>) 201, d'))"
    by (auto simp: createTransaction_def Let_def)
  show "case ?ins of
           Inl e \<Rightarrow> createTransaction d now body = (ErrorResponse (EngineMessage e) 500, d)
         | Inr d' \<Rightarrow>
             status (fst (createTransaction d now body)) = 201
             \<and> snd (createTransaction d now body) = d'
             \<and> kept d d'
             \<and> map stored_values (inserted d d') = [bound_values ''manual'' body]"
  proof (cases ?ins)
    case (Inl e)
    then show ?thesis by (simp add: run)
  next
    case (Inr d')
    from insert_transaction_Inr(4) [OF Inr] obtain t where
      t: "transactions d' = transactions d @ [t]" "stored_values t = bound_values ''manual'' body"
      by (auto simp: bound_values_def)
    then have "kept d d'" "inserted d d' = [t]"
      by (simp_all add: kept_def inserted_def)
    with t Inr show ?thesis by (simp add: run)
  qed
qed

theorem createTransaction_validation_witness:
  \<open>createTransaction example_db ''2024-03-21 10:00:00'' undated_element
      = (ErrorResponse (Text ''Missing required fields'') 400, example_db)
   \<and> createTransaction example_db ''2024-03-21 10:00:00'' transfer_element
      = (ErrorResponse (Text ''Type must be "income" or "expense"'') 400, example_db)
   \<and> createTransaction example_db ''2024-03-21 10:00:00'' null_amount_body
      = (ErrorResponse (EngineMessage (NotNullFailed ''transactions.amount'')) 500, example_db)
   \<and> status (fst (createTransaction example_db ''2024-03-21 10:00:00'' market_element)) = 201
   \<and> map stored_values
        (inserted example_db (snd (createTransaction example_db ''2024-03-21 10:00:00'' market_element)))
      = [(Some ''2024-03-02'', Some ''Market'', Some 42, Some ''expense'', Some 2, Some ''manual'')]\<close>
  using createTransaction_validation [of undated_element example_db "''2024-03-21 10:00:00''"]
    createTransaction_validation [of transfer_element example_db "''2024-03-21 10:00:00''"]
    createTransaction_validation [of null_amount_body example_db "''2024-03-21 10:00:00''"]
    createTransaction_validation [of market_element example_db "''2024-03-21 10:00:00''"]
  by (simp add: undated_element_def transfer_element_def null_amount_body_def market_element_def
      missing_required_def insert_transaction_def example_db_def example_categories_def
      bound_values_def)

text \<open>
  C8. Stored amounts are not checked for sign. The body of a refund entered with amount
  -5 passes the validation of each of the three writing handlers and the store accepts
  it: the row with amount -5 is in the table afterwards.
\<close>

theorem negative_amount_stored:
  "status (fst (createTransaction example_db ''2024-03-21 10:00:00'' refund_body)) = 201
   \<and> map amount (transactions (snd (createTransaction example_db ''2024-03-21 10:00:00'' refund_body)))
      = [1500, 4000, 250, 80, - 5]
   \<and> map amount (transactions (snd (updateTransaction example_db 4 refund_body)))
      = [1500, 4000, 250, - 5]
   \<and> map amount (transactions (snd (importTransactions example_db example_clock (Some [refund_body]))))
      = [1500, 4000, 250, 80, - 5]"
  by (simp add: createTransaction_def updateTransaction_def importTransactions_def
      update_transaction_def refund_body_def missing_required_def insert_transaction_def
      example_db_def example_categories_def example_transactions_def jsonResponse_def)

section \<open>Listing transactions: limit and order\<close>

lemma filter_key_distinct:
  "distinct (map f xs) \<Longrightarrow> length (filter (\<lambda>x. f x = k) xs) \<le> 1"
proof (induction xs)
  case Nil
  then show ?case by simp
next
  case (Cons x xs)
  show ?case
  proof (cases "f x = k")
    case True
    with Cons.prems have "k \<notin> f ` set xs" by simp
    then have "filter (\<lambda>x. f x = k) xs = []"
      by (auto simp: filter_empty_conv)
    with True show ?thesis by simp
  next
    case False
    with Cons show ?thesis by simp
  qed
qed

lemma matches_unique:
  assumes "length (filter P ys) \<le> 1"
  shows "matches P ys = [case filter P ys of [] \<Rightarrow> None | z # zs \<Rightarrow> Some z]"
  using assms by (cases "filter P ys") (simp_all add: matches_def)

lemma left_join_unique:
  assumes "\<And>x. x \<in> set xs \<Longrightarrow> length (filter (on x) ys) \<le> 1"
  shows "left_join on xs ys
    = map (\<lambda>x. (x, case filter (on x) ys of [] \<Rightarrow> None | z # zs \<Rightarrow> Some z)) xs"
  using assms by (induction xs) (simp_all add: left_join_def matches_unique)

lemma with_category_name_fst:
  assumes "distinct (map cat_id (categories d))"
  shows "map fst (with_category_name d) = transactions d"
proof -
  have "length (filter (\<lambda>c. category_id t = cat_id c) (categories d)) \<le> 1"
    for t :: transaction
    using filter_key_distinct [OF assms, of "category_id t"]
    by (simp add: eq_commute [of "category_id t"])
  then have "left_join (\<lambda>t c. category_id t = cat_id c) (transactions d) (categories d)
    = map (\<lambda>t. (t, case filter (\<lambda>c. category_id t = cat_id c) (categories d) of
                      [] \<Rightarrow> None | z # zs \<Rightarrow> Some z)) (transactions d)"
    by (intro left_join_unique)
  then show ?thesis
    by (simp add: with_category_name_def comp_def)
qed

lemma order_by_desc_sorted:
  "sorted_wrt (\<lambda>a b. a \<ge> b) (map key (order_by_desc key rows))"
  by (simp add: order_by_desc_def rev_map [symmetric] sorted_wrt_rev)

lemma order_by_desc_mset: "mset (order_by_desc key rows) = mset rows"
  by (simp add: order_by_desc_def)

text \<open>
  C10. \<^verbatim>\<open>GET /api/transactions\<close>, on a database whose category ids are distinct (the
  primary key). Without a month parameter (or with an empty one) the response lists
  \<open>min 100 n\<close> of the \<open>n\<close> transactions, and they are the most recent ones by date in
  descending order: followed by some list \<open>rest\<close> they are all the transactions, in
  descending order of the date column. With a month parameter \<open>m\<close> the response lists
  exactly the transactions whose date falls in \<open>m\<close>, all of them, in descending order of
  date.
\<close>

theorem getTransactions_recent:
  assumes "distinct (map cat_id (categories d))"
  shows "(q = None \<or> q = Some [] \<longrightarrow>
            status (getTransactions strftime_ym d q) = 200
          \<and> length (listed (getTransactions strftime_ym d q)) = min 100 (length (transactions d))
          \<and> (\<exists>rest. mset (map fst (listed (getTransactions strftime_ym d q) @ rest))
                       = mset (transactions d)
                \<and> sorted_wrt (\<lambda>a b. a \<ge> b)
                     (map (\<lambda>r. date (fst r)) (listed (getTransactions strftime_ym d q) @ rest))))
    \<and> (q = Some m \<and> m \<noteq> [] \<longrightarrow>
            status (getTransactions strftime_ym d q) = 200
          \<and> mset (map fst (listed (getTransactions strftime_ym d q)))
              = mset (filter (\<lambda>t. strftime_ym (date t) = Some m) (transactions d))
          \<and> sorted_wrt (\<lambda>a b. a \<ge> b)
               (map (\<lambda>r. date (fst r)) (listed (getTransactions strftime_ym d q))))"
proof (intro conjI impI)
  let ?all = "order_by_desc (\<lambda>r. date (fst r)) (with_category_name d)"
  assume none: "q = None \<or> q = Some []"
  then have run: "getTransactions strftime_ym d q = JsonResponse (take 100 ?all) 200"
    by (auto simp: getTransactions_def jsonResponse_def)
  have "length ?all = length (map fst (with_category_name d))"
    by (simp add: order_by_desc_def)
  then have len: "length ?all = length (transactions d)"
    by (simp only: with_category_name_fst [OF assms])
  show "status (getTransactions strftime_ym d q) = 200" by (simp add: run)
  show "length (listed (getTransactions strftime_ym d q)) = min 100 (length (transactions d))"
    by (simp add: run len min.commute)
  have "mset (map fst ?all) = mset (map fst (with_category_name d))"
    by (simp add: order_by_desc_mset)
  then have "mset (map fst (take 100 ?all @ drop 100 ?all)) = mset (transactions d)"
    by (simp only: append_take_drop_id with_category_name_fst [OF assms])
  moreover have "sorted_wrt (\<lambda>a b. a \<ge> b) (map (\<lambda>r. date (fst r)) (take 100 ?all @ drop 100 ?all))"
    using order_by_desc_sorted [of "\<lambda>r. date (fst r)" "with_category_name d"] by simp
  ultimately show "\<exists>rest. mset (map fst (listed (getTransactions strftime_ym d q) @ rest))
                       = mset (transactions d)
                \<and> sorted_wrt (\<lambda>a b. a \<ge> b)
                     (map (\<lambda>r. date (fst r)) (listed (getTransactions strftime_ym d q) @ rest))"
    unfolding run listed.simps by blast
next
  assume some: "q = Some m \<and> m \<noteq> []"
  let ?rows = "filter (\<lambda>r. strftime_ym (date (fst r)) = Some m) (with_category_name d)"
  from some have run: "getTransactions strftime_ym d q
      = JsonResponse (order_by_desc (\<lambda>r. date (fst r)) ?rows) 200"
    by (cases m) (simp_all add: getTransactions_def jsonResponse_def)
  show "status (getTransactions strftime_ym d q) = 200" by (simp add: run)
  have "map fst ?rows = filter (\<lambda>t. strftime_ym (date t) = Some m) (map fst (with_category_name d))"
    by (simp add: filter_map comp_def)
  then have "mset (map fst ?rows) = mset (filter (\<lambda>t. strftime_ym (date t) = Some m) (transactions d))"
    by (simp only: with_category_name_fst [OF assms])
  moreover have "mset (map fst (order_by_desc (\<lambda>r. date (fst r)) ?rows)) = mset (map fst ?rows)"
    by (simp add: order_by_desc_mset)
  ultimately show "mset (map fst (listed (getTransactions strftime_ym d q)))
              = mset (filter (\<lambda>t. strftime_ym (date t) = Some m) (transactions d))"
    unfolding run listed.simps by (rule trans [rotated])
  show "sorted_wrt (\<lambda>a b. a \<ge> b)
               (map (\<lambda>r. date (fst r)) (listed (getTransactions strftime_ym d q)))"
    unfolding run listed.simps by (rule order_by_desc_sorted)
qed

lemma example_distinct: "distinct (map cat_id (categories example_db))"
  by (simp add: example_db_def example_categories_def)

lemma example_getTransactions:
  "map (\<lambda>r. (txn_id (fst r), snd r)) (listed (getTransactions example_strftime_ym example_db None))
     = [(4, Some ''Groceries''), (3, Some ''Savings''), (2, Some ''Savings''), (1, Some ''Housing'')]"
  "map (\<lambda>r. (txn_id (fst r), snd r))
       (listed (getTransactions example_strftime_ym example_db (Some ''2024-03'')))
     = [(3, Some ''Savings''), (2, Some ''Savings''), (1, Some ''Housing'')]"
  by (simp_all add: getTransactions_def jsonResponse_def order_by_desc_def with_category_name_def
      left_join_def matches_def example_strftime_ym_def example_db_def example_categories_def
      example_transactions_def)

theorem getTransactions_recent_witness:
  "distinct (map cat_id (categories example_db))
   \<and> map (\<lambda>r. (txn_id (fst r), snd r)) (listed (getTransactions example_strftime_ym example_db None))
     = [(4, Some ''Groceries''), (3, Some ''Savings''), (2, Some ''Savings''), (1, Some ''Housing'')]
   \<and> map (\<lambda>r. (txn_id (fst r), snd r))
       (listed (getTransactions example_strftime_ym example_db (Some ''2024-03'')))
     = [(3, Some ''Savings''), (2, Some ''Savings''), (1, Some ''Housing'')]
   \<and> length (listed (getTransactions example_strftime_ym example_db None)) = 4
   \<and> mset (map fst (listed (getTransactions example_strftime_ym example_db (Some ''2024-03''))))
       = mset (filter (\<lambda>t. example_strftime_ym (date t) = Some ''2024-03'') (transactions example_db))"
  using getTransactions_recent [OF example_distinct, where q = None
      and strftime_ym = example_strftime_ym and m = "''2024-03''"]
    getTransactions_recent [OF example_distinct, where q = "Some ''2024-03''"
      and strftime_ym = example_strftime_ym and m = "''2024-03''"]
    example_getTransactions example_distinct
  by (simp add: example_db_def example_transactions_def)

section \<open>The monthly summary: totals\<close>

lemma sum_amount_if:
  "sum_list (map (amount_if ty) ts) = sum_list (map amount (filter (\<lambda>t. type t = ty) ts))"
  by (induction ts) (simp_all add: amount_if_def)

lemma totals_sums:
  "or_zero (fst (totals strftime_ym d m))
     = sum_list (map amount (filter (\<lambda>t. type t = ''income'' \<and> dated_in strftime_ym m t) (transactions d)))"
  "or_zero (snd (totals strftime_ym d m))
     = sum_list (map amount (filter (\<lambda>t. type t = ''expense'' \<and> dated_in strftime_ym m t) (transactions d)))"
proof -
  define ts where "ts = filter (dated_in strftime_ym m) (transactions d)"
  have f: "filter (\<lambda>t. type t = ty \<and> dated_in strftime_ym m t) (transactions d)
      = filter (\<lambda>t. type t = ty) ts" for ty
    by (simp add: ts_def conj_commute)
  have "or_zero (fst (totals strftime_ym d m)) = sum_list (map (amount_if ''income'') ts)"
    unfolding totals_def ts_def [symmetric] by (cases ts) simp_all
  then show "or_zero (fst (totals strftime_ym d m))
     = sum_list (map amount (filter (\<lambda>t. type t = ''income'' \<and> dated_in strftime_ym m t) (transactions d)))"
    by (simp only: f sum_amount_if)
  have "or_zero (snd (totals strftime_ym d m)) = sum_list (map (amount_if ''expense'') ts)"
    unfolding totals_def ts_def [symmetric] by (cases ts) simp_all
  then show "or_zero (snd (totals strftime_ym d m))
     = sum_list (map amount (filter (\<lambda>t. type t = ''expense'' \<and> dated_in strftime_ym m t) (transactions d)))"
    by (simp only: f sum_amount_if)
qed

lemma getSummary_run:
  assumes "m \<noteq> []"
  shows "getSummary strftime_ym d (Some m) = JsonResponse
     \<lparr>s_month = m, total_income = or_zero (fst (totals strftime_ym d m)),
      total_expenses = or_zero (snd (totals strftime_ym d m)),
      net = or_zero (fst (totals strftime_ym d m)) - or_zero (snd (totals strftime_ym d m)),
      category_breakdown = categoryBreakdown strftime_ym d m\<rparr> 200"
  using assms by (cases m) (simp_all add: getSummary_def jsonResponse_def Let_def)

text \<open>
  C2. \<^verbatim>\<open>GET /api/reports/summary\<close> with a month \<open>m\<close>: the response is a summary whose
  total income is the sum of the amounts of the income transactions dated in \<open>m\<close>, whose
  total expenses is the sum of the amounts of the expense transactions dated in \<open>m\<close>, and
  whose net is the first minus the second.
\<close>

theorem getSummary_net:
  assumes "m \<noteq> []"
  shows "\<exists>s. getSummary strftime_ym d (Some m) = JsonResponse s 200
    \<and> total_income s = sum_list (map amount
         (filter (\<lambda>t. type t = ''income'' \<and> dated_in strftime_ym m t) (transactions d)))
    \<and> total_expenses s = sum_list (map amount
         (filter (\<lambda>t. type t = ''expense'' \<and> dated_in strftime_ym m t) (transactions d)))
    \<and> total_income s - total_expenses s = net s"
  by (simp add: getSummary_run [OF assms] totals_sums)

lemma example_summary:
  "getSummary example_strftime_ym example_db (Some ''2024-03'') = JsonResponse
     \<lparr>s_month = ''2024-03'', total_income = 4000, total_expenses = 1750, net = 2250,
      category_breakdown =
        [\<lparr>br_id = 1, br_name = ''Housing'', actual = 1500, budgeted = 1600\<rparr>,
         \<lparr>br_id = 2, br_name = ''Groceries'', actual = 0, budgeted = 0\<rparr>]\<rparr> 200"
  by (simp add: getSummary_def jsonResponse_def totals_def dated_in_def amount_if_def
      categoryBreakdown_def order_by_desc_def group_by_def joined_rows_def left_join_def
      matches_def group_key_def select_breakdown_def expense_of_def
      example_strftime_ym_def example_db_def example_categories_def example_transactions_def
      example_budgets_def)

theorem getSummary_net_witness:
  "''2024-03'' \<noteq> [] \<and> map_option total_income (payload (getSummary example_strftime_ym example_db (Some ''2024-03''))) = Some 4000
   \<and> map_option total_expenses (payload (getSummary example_strftime_ym example_db (Some ''2024-03''))) = Some 1750
   \<and> map_option net (payload (getSummary example_strftime_ym example_db (Some ''2024-03''))) = Some 2250
   \<and> sum_list (map amount (filter (\<lambda>t. type t = ''income'' \<and> dated_in example_strftime_ym ''2024-03'' t)
        (transactions example_db))) = 4000"
  using getSummary_net [of "''2024-03''" example_strftime_ym example_db]
  by (auto simp: example_summary)

section \<open>The monthly summary: category breakdown\<close>

lemma left_join_filter:
  "filter (\<lambda>r. P (fst r)) (left_join on xs ys) = left_join on (filter P xs) ys"
  by (induction xs) (simp_all add: left_join_def comp_def)

lemma matches_not_Nil: "matches P ys \<noteq> []"
  by (cases "filter P ys") (simp_all add: matches_def)

lemma sum_matches:
  "sum_list (map (\<lambda>t. case t of None \<Rightarrow> 0 | Some t \<Rightarrow> f t) (matches P ys))
     = sum_list (map f (filter P ys))"
  by (cases "filter P ys") (simp_all add: matches_def comp_def)

text \<open>Grouping rows that arrive in blocks, one block per key.\<close>

lemma filter_block:
  assumes "distinct (map k A)" and "c \<in> set A"
    and "\<And>a r. a \<in> set A \<Longrightarrow> r \<in> set (G a) \<Longrightarrow> key r = k a"
  shows "filter (\<lambda>r. key r = k c) (concat (map G A)) = G c"
  using assms
proof (induction A)
  case Nil
  then show ?case by simp
next
  case (Cons a A)
  have keys: "\<And>r. r \<in> set (G a) \<Longrightarrow> key r = k a"
    using Cons.prems(3) by simp
  show ?case
  proof (cases "a = c")
    case True
    have "filter (\<lambda>r. key r = k c) (G a) = G a"
      using keys True by (simp add: filter_id_conv)
    moreover have "filter (\<lambda>r. key r = k c) (concat (map G A)) = []"
    proof -
      have "key r \<noteq> k c" if "r \<in> set (concat (map G A))" for r
      proof -
        from that obtain b where b: "b \<in> set A" "r \<in> set (G b)" by auto
        then have "key r = k b" using Cons.prems(3) by simp
        moreover from Cons.prems(1) True have "k c \<notin> k ` set A" by simp
        with b(1) have "k b \<noteq> k c" by (metis imageI)
        ultimately show ?thesis by simp
      qed
      then show ?thesis by (simp add: filter_empty_conv)
    qed
    ultimately show ?thesis using True by simp
  next
    case False
    with Cons.prems have c: "c \<in> set A" by simp
    from Cons.prems(1) have "k a \<notin> k ` set A" by simp
    with c have "k a \<noteq> k c" by (metis imageI)
    then have "filter (\<lambda>r. key r = k c) (G a) = []"
      using keys by (simp add: filter_empty_conv)
    moreover have "filter (\<lambda>r. key r = k c) (concat (map G A)) = G c"
      using Cons.IH c Cons.prems(1,3) by simp
    ultimately show ?thesis by simp
  qed
qed

lemma group_by_blocks:
  assumes dist: "distinct (map k A)"
    and keys: "\<And>a r. a \<in> set A \<Longrightarrow> r \<in> set (G a) \<Longrightarrow> key r = k a"
    and nonempty: "\<And>a. a \<in> set A \<Longrightarrow> G a \<noteq> []"
  shows "mset (group_by key (concat (map G A))) = mset (map (\<lambda>c. (k c, G c)) A)"
proof -
  let ?rows = "concat (map G A)"
  let ?F = "\<lambda>kk. (kk, filter (\<lambda>r. key r = kk) ?rows)"
  have "set (map key ?rows) = k ` set A"
  proof (intro equalityI subsetI)
    fix x assume "x \<in> set (map key ?rows)"
    then obtain a r where "a \<in> set A" "r \<in> set (G a)" "x = key r" by auto
    then show "x \<in> k ` set A" using keys by auto
  next
    fix x assume "x \<in> k ` set A"
    then obtain a where a: "a \<in> set A" "x = k a" by auto
    with nonempty obtain r where "r \<in> set (G a)" by (cases "G a") auto
    with a keys show "x \<in> set (map key ?rows)" by force
  qed
  then have "set (remdups (map key ?rows)) = set (map k A)" by simp
  moreover have "distinct (remdups (map key ?rows))" by simp
  ultimately have ks: "mset (remdups (map key ?rows)) = mset (map k A)"
    using dist by (simp only: set_eq_iff_mset_eq_distinct)
  have "mset (group_by key ?rows) = image_mset ?F (mset (remdups (map key ?rows)))"
    by (simp add: group_by_def)
  also have "\<dots> = image_mset ?F (mset (map k A))" by (simp only: ks)
  also have "\<dots> = mset (map (\<lambda>c. ?F (k c)) A)" by (simp add: comp_def multiset.map_comp)
  also have "map (\<lambda>c. ?F (k c)) A = map (\<lambda>c. (k c, G c)) A"
    by (rule map_cong [OF refl]) (simp add: filter_block [OF dist _ keys])
  finally show ?thesis .
qed

lemma distinct_map_fst:
  "distinct (map (\<lambda>x. fst (k x)) xs) \<Longrightarrow> distinct (map k xs)"
proof (induction xs)
  case Nil
  then show ?case by simp
next
  case (Cons x xs)
  have "k x \<notin> k ` set xs"
  proof
    assume "k x \<in> k ` set xs"
    then obtain y where "y \<in> set xs" "k x = k y" by auto
    then have "fst (k x) \<in> (\<lambda>x. fst (k x)) ` set xs" by force
    with Cons.prems show False by simp
  qed
  with Cons show ?case by simp
qed

lemma joined_rows_blocks:
  assumes "budgets_unique d"
  shows "joined_rows strftime_ym d m
    = concat (map (block strftime_ym d m) (filter (\<lambda>c. is_active c = 1) (categories d)))"
proof -
  let ?on1 = "\<lambda>c t. cat_id c = category_id t \<and> dated_in strftime_ym m t"
  let ?on2 = "\<lambda>ct mb. cat_id (fst ct) = mb_category_id mb \<and> month mb = m"
  let ?j1 = "left_join ?on1 (categories d) (transactions d)"
  have uniq: "length (filter (?on2 ct) (monthly_budgets d)) \<le> 1"
    for ct :: "category \<times> transaction option"
  proof -
    have eq: "?on2 ct = (\<lambda>mb. (month mb, mb_category_id mb) = (m, cat_id (fst ct)))"
      by (rule ext) auto
    have "length (filter (\<lambda>mb. (month mb, mb_category_id mb) = (m, cat_id (fst ct)))
        (monthly_budgets d)) \<le> 1"
      using assms unfolding budgets_unique_def by (rule filter_key_distinct)
    then show ?thesis by (simp only: eq)
  qed
  have "left_join ?on2 ?j1 (monthly_budgets d)
      = map (\<lambda>ct. (ct, budget_of d m (fst ct))) ?j1"
    unfolding budget_of_def by (intro left_join_unique uniq)
  then have "joined_rows strftime_ym d m
      = filter (\<lambda>r. is_active (fst (fst r)) = 1) (map (\<lambda>ct. (ct, budget_of d m (fst ct))) ?j1)"
    by (simp only: joined_rows_def)
  also have "\<dots> = map (\<lambda>ct. (ct, budget_of d m (fst ct)))
      (filter (\<lambda>ct. is_active (fst ct) = 1) ?j1)"
    by (simp add: filter_map comp_def)
  also have "filter (\<lambda>ct. is_active (fst ct) = 1) ?j1
      = left_join ?on1 (filter (\<lambda>c. is_active c = 1) (categories d)) (transactions d)"
    by (rule left_join_filter)
  also have "map (\<lambda>ct. (ct, budget_of d m (fst ct)))
       (left_join ?on1 (filter (\<lambda>c. is_active c = 1) (categories d)) (transactions d))
     = concat (map (block strftime_ym d m) (filter (\<lambda>c. is_active c = 1) (categories d)))"
  proof -
    have "block strftime_ym d m = (\<lambda>c. map (\<lambda>t. ((c, t), budget_of d m c))
        (matches (?on1 c) (transactions d)))"
      by (rule ext) (simp add: block_def)
    then show ?thesis
      by (simp add: left_join_def map_concat comp_def)
  qed
  finally show ?thesis .
qed

lemma budgeted_block:
  fixes c :: category and d :: db
  shows "(case map_option budget_amount (budget_of d m c) of None \<Rightarrow> 0 | Some b \<Rightarrow> b)
      = (case filter (\<lambda>b. mb_category_id b = cat_id c \<and> month b = m) (monthly_budgets d) of
           [] \<Rightarrow> 0 | b # bs \<Rightarrow> budget_amount b)"
proof -
  have eq: "(\<lambda>mb::monthly_budget. cat_id c = mb_category_id mb \<and> month mb = m)
      = (\<lambda>b. mb_category_id b = cat_id c \<and> month b = m)"
    by (rule ext) auto
  show ?thesis
    by (cases "filter (\<lambda>b. mb_category_id b = cat_id c \<and> month b = m) (monthly_budgets d)")
      (simp_all add: budget_of_def eq)
qed

lemma select_block:
  "select_breakdown
     ((cat_id c, name c, map_option budget_amount (budget_of d m c)), block strftime_ym d m c)
   = breakdown_entry strftime_ym d m c"
proof -
  let ?on1 = "\<lambda>t. cat_id c = category_id t \<and> dated_in strftime_ym m t"
  have "sum_list (map expense_of (block strftime_ym d m c))
      = sum_list (map (\<lambda>t. case t of None \<Rightarrow> 0 | Some t \<Rightarrow> amount_if ''expense'' t)
          (matches ?on1 (transactions d)))"
    by (simp add: block_def expense_of_def comp_def)
  also have "\<dots> = sum_list (map (amount_if ''expense'') (filter ?on1 (transactions d)))"
    by (rule sum_matches)
  also have "\<dots> = sum_list (map amount
      (filter (\<lambda>t. type t = ''expense'') (filter ?on1 (transactions d))))"
    by (rule sum_amount_if)
  also have "filter (\<lambda>t. type t = ''expense'') (filter ?on1 (transactions d))
      = filter (\<lambda>t. category_id t = cat_id c \<and> type t = ''expense''
                              \<and> dated_in strftime_ym m t) (transactions d)"
    by (auto simp: filter_filter intro!: filter_cong)
  finally have act: "sum_list (map expense_of (block strftime_ym d m c))
      = sum_list (map amount (filter (\<lambda>t. category_id t = cat_id c \<and> type t = ''expense''
                              \<and> dated_in strftime_ym m t) (transactions d)))" .
  show ?thesis
    by (simp only: select_breakdown_def breakdown_entry_def fst_conv snd_conv act budgeted_block)
qed

lemma categoryBreakdown_entries:
  assumes ids: "distinct (map cat_id (categories d))" and buds: "budgets_unique d"
  shows "mset (categoryBreakdown strftime_ym d m)
     = mset (map (breakdown_entry strftime_ym d m) (filter (\<lambda>c. is_active c = 1) (categories d)))"
proof -
  let ?A = "filter (\<lambda>c. is_active c = 1) (categories d)"
  let ?k = "\<lambda>c. (cat_id c, name c, map_option budget_amount (budget_of d m c))"
  have "distinct (map cat_id ?A)" using ids by (rule distinct_map_filter)
  then have dist: "distinct (map ?k ?A)"
    by (intro distinct_map_fst) simp
  have keys: "group_key r = ?k a" if "r \<in> set (block strftime_ym d m a)" for a r
    using that by (auto simp: block_def group_key_def)
  have nonempty: "block strftime_ym d m a \<noteq> []" for a
    by (simp add: block_def matches_not_Nil)
  have "mset (group_by group_key (joined_rows strftime_ym d m))
      = mset (map (\<lambda>c. (?k c, block strftime_ym d m c)) ?A)"
    unfolding joined_rows_blocks [OF buds]
    by (rule group_by_blocks [OF dist keys nonempty])
  then have "mset (map select_breakdown (group_by group_key (joined_rows strftime_ym d m)))
      = mset (map select_breakdown (map (\<lambda>c. (?k c, block strftime_ym d m c)) ?A))"
    by (simp only: mset_map)
  also have "map select_breakdown (map (\<lambda>c. (?k c, block strftime_ym d m c)) ?A)
      = map (breakdown_entry strftime_ym d m) ?A"
    by (simp add: select_block)
  finally show ?thesis
    by (simp add: categoryBreakdown_def order_by_desc_mset)
qed

lemma categoryBreakdown_sorted:
  "sorted_wrt (\<lambda>a b. a \<ge> b) (map actual (categoryBreakdown strftime_ym d m))"
  unfolding categoryBreakdown_def by (rule order_by_desc_sorted)

lemma categoryBreakdown_set:
  assumes "distinct (map cat_id (categories d))" and "budgets_unique d"
  shows "set (categoryBreakdown strftime_ym d m)
     = breakdown_entry strftime_ym d m ` {c \<in> set (categories d). is_active c = 1}"
  using mset_eq_setD [OF categoryBreakdown_entries [OF assms, of strftime_ym m]] by simp

text \<open>
  C1. \<^verbatim>\<open>GET /api/reports/summary\<close> with a month \<open>m\<close>, on a database that satisfies the
  schema's keys (distinct category ids, at most one budget row per month and category):
  the category breakdown has exactly one entry for each active category and no other
  entry; the entry of a category has its id and name, as \<open>actual\<close> the sum of the amounts
  of its expense transactions dated in \<open>m\<close> (0 when there are none) and as \<open>budgeted\<close> its
  budget amount for \<open>m\<close> (0 when there is no budget row); and the entries are in
  descending order of \<open>actual\<close>.
\<close>

theorem getSummary_breakdown:
  assumes "distinct (map cat_id (categories d))" and "budgets_unique d" and "m \<noteq> []"
  shows "\<exists>s. getSummary strftime_ym d (Some m) = JsonResponse s 200
    \<and> mset (category_breakdown s)
        = mset (map (breakdown_entry strftime_ym d m) (filter (\<lambda>c. is_active c = 1) (categories d)))
    \<and> sorted_wrt (\<lambda>a b. a \<ge> b) (map actual (category_breakdown s))"
  by (simp add: getSummary_run [OF assms(3)] categoryBreakdown_entries [OF assms(1,2)]
      categoryBreakdown_sorted)

lemma example_unique: "budgets_unique example_db"
  by (simp add: budgets_unique_def example_db_def example_budgets_def)

lemma example_entries:
  "map (breakdown_entry example_strftime_ym example_db ''2024-03'')
       (filter (\<lambda>c. is_active c = 1) (categories example_db))
     = [\<lparr>br_id = 1, br_name = ''Housing'', actual = 1500, budgeted = 1600\<rparr>,
        \<lparr>br_id = 2, br_name = ''Groceries'', actual = 0, budgeted = 0\<rparr>]"
  by (simp add: breakdown_entry_def dated_in_def example_strftime_ym_def example_db_def
      example_categories_def example_transactions_def example_budgets_def)

theorem getSummary_breakdown_witness:
  "distinct (map cat_id (categories example_db)) \<and> budgets_unique example_db \<and> ''2024-03'' \<noteq> []
   \<and> map_option category_breakdown (payload (getSummary example_strftime_ym example_db (Some ''2024-03'')))
      = Some [\<lparr>br_id = 1, br_name = ''Housing'', actual = 1500, budgeted = 1600\<rparr>,
              \<lparr>br_id = 2, br_name = ''Groceries'', actual = 0, budgeted = 0\<rparr>]
   \<and> map (breakdown_entry example_strftime_ym example_db ''2024-03'')
       (filter (\<lambda>c. is_active c = 1) (categories example_db))
      = [\<lparr>br_id = 1, br_name = ''Housing'', actual = 1500, budgeted = 1600\<rparr>,
         \<lparr>br_id = 2, br_name = ''Groceries'', actual = 0, budgeted = 0\<rparr>]"
  using getSummary_breakdown [OF example_distinct example_unique, of "''2024-03''" example_strftime_ym]
  by (simp add: example_summary example_entries example_distinct example_unique)

text \<open>
  C3 (amended). Under the same keys, the categories in the raw breakdown are exactly the
  active categories: every active category has its entry, in particular every active
  category with a transaction or a budget row in the month, and also one with neither.
  The dashboard shows the entries with a positive actual or a positive budget, so an
  entry with zero actual and zero budget is in the raw result and not displayed.
\<close>

theorem breakdown_covers_active:
  assumes "distinct (map cat_id (categories d))" and "budgets_unique d" and "m \<noteq> []"
  shows "\<exists>s. getSummary strftime_ym d (Some m) = JsonResponse s 200
    \<and> br_id ` set (category_breakdown s) = cat_id ` {c \<in> set (categories d). is_active c = 1}
    \<and> (\<forall>c\<in>set (categories d). is_active c = 1 \<longrightarrow>
          breakdown_entry strftime_ym d m c \<in> set (category_breakdown s))
    \<and> (\<forall>c\<in>set (categories d). is_active c = 1
          \<and> ((\<exists>t\<in>set (transactions d). category_id t = cat_id c \<and> dated_in strftime_ym m t)
             \<or> (\<exists>b\<in>set (monthly_budgets d). mb_category_id b = cat_id c \<and> month b = m))
          \<longrightarrow> cat_id c \<in> br_id ` set (category_breakdown s))
    \<and> displayed (category_breakdown s)
        = filter (\<lambda>r. actual r > 0 \<or> budgeted r > 0) (category_breakdown s)
    \<and> (\<forall>r\<in>set (category_breakdown s). actual r = 0 \<and> budgeted r = 0 \<longrightarrow>
          r \<notin> set (displayed (category_breakdown s)))"
proof -
  let ?s = "\<lparr>s_month = m, total_income = or_zero (fst (totals strftime_ym d m)),
      total_expenses = or_zero (snd (totals strftime_ym d m)),
      net = or_zero (fst (totals strftime_ym d m)) - or_zero (snd (totals strftime_ym d m)),
      category_breakdown = categoryBreakdown strftime_ym d m\<rparr>"
  have bd: "category_breakdown ?s = categoryBreakdown strftime_ym d m" by simp
  note set = categoryBreakdown_set [OF assms(1,2), of strftime_ym m]
  have ids: "br_id ` set (categoryBreakdown strftime_ym d m)
      = cat_id ` {c \<in> set (categories d). is_active c = 1}"
    unfolding set by (force simp: breakdown_entry_def)
  have present: "breakdown_entry strftime_ym d m c \<in> set (categoryBreakdown strftime_ym d m)"
    if "c \<in> set (categories d)" "is_active c = 1" for c
    unfolding set using that by blast
  have covered: "cat_id c \<in> br_id ` set (categoryBreakdown strftime_ym d m)"
    if "c \<in> set (categories d)" "is_active c = 1" for c
    unfolding ids using that by blast
  have hidden: "r \<notin> set (displayed rows)" if "actual r = 0 \<and> budgeted r = 0" for r rows
    using that by (simp add: displayed_def)
  have "getSummary strftime_ym d (Some m) = JsonResponse ?s 200"
    by (rule getSummary_run [OF assms(3)])
  moreover have "br_id ` set (category_breakdown ?s) = cat_id ` {c \<in> set (categories d). is_active c = 1}"
    unfolding bd by (rule ids)
  moreover have "\<forall>c\<in>set (categories d). is_active c = 1 \<longrightarrow>
          breakdown_entry strftime_ym d m c \<in> set (category_breakdown ?s)"
    unfolding bd using present by blast
  moreover have "\<forall>c\<in>set (categories d). is_active c = 1
          \<and> ((\<exists>t\<in>set (transactions d). category_id t = cat_id c \<and> dated_in strftime_ym m t)
             \<or> (\<exists>b\<in>set (monthly_budgets d). mb_category_id b = cat_id c \<and> month b = m))
          \<longrightarrow> cat_id c \<in> br_id ` set (category_breakdown ?s)"
    unfolding bd using covered by blast
  moreover have "displayed (category_breakdown ?s)
        = filter (\<lambda>r. actual r > 0 \<or> budgeted r > 0) (category_breakdown ?s)"
    by (simp add: displayed_def)
  moreover have "\<forall>r\<in>set (category_breakdown ?s). actual r = 0 \<and> budgeted r = 0 \<longrightarrow>
          r \<notin> set (displayed (category_breakdown ?s))"
    using hidden by blast
  ultimately show ?thesis by blast
qed

theorem breakdown_covers_active_witness:
  "distinct (map cat_id (categories example_db)) \<and> budgets_unique example_db \<and> ''2024-03'' \<noteq> []
   \<and> map_option (map br_id \<circ> category_breakdown)
        (payload (getSummary example_strftime_ym example_db (Some ''2024-03''))) = Some [1, 2]
   \<and> map_option (map br_id \<circ> displayed \<circ> category_breakdown)
        (payload (getSummary example_strftime_ym example_db (Some ''2024-03''))) = Some [1]
   \<and> cat_id ` {c \<in> set (categories example_db). is_active c = 1} = {1, 2}"
  using breakdown_covers_active [OF example_distinct example_unique, of "''2024-03''" example_strftime_ym]
  by (auto simp: example_summary example_distinct example_unique displayed_def)

text \<open>
  C3 as stated fails for deactivated categories: in the example, category 3 is inactive
  and has transactions dated in March 2024, and the breakdown of that month has
  entries for categories 1 and 2 only.
\<close>

theorem breakdown_inactive_counterexample:
  "3 \<in> set (map category_id
        (filter (dated_in example_strftime_ym ''2024-03'') (transactions example_db)))
   \<and> map_option (map br_id \<circ> category_breakdown)
        (payload (getSummary example_strftime_ym example_db (Some ''2024-03''))) = Some [1, 2]"
proof -
  have "3 \<in> set (map category_id
        (filter (dated_in example_strftime_ym ''2024-03'') (transactions example_db)))"
    by (simp add: dated_in_def example_strftime_ym_def example_db_def example_transactions_def)
  then show ?thesis
    by (simp add: example_summary)
qed

section \<open>Saving a budget twice\<close>

lemma saveBudgets_single:
  assumes "m \<noteq> []" and "ci \<noteq> 0"
  shows "saveBudgets d clock (Val m) (budget_request ci am)
    = (case upsert_budget d (clock 0) (Some m) (Some ci) (Some am) of
         Inl e \<Rightarrow> (ErrorResponse (EngineMessage e) 500, d)
       | Inr d' \<Rightarrow> (JsonResponse ''Budgets saved successfully'' 200, d'))"
  using assms
  by (cases m) (simp_all add: saveBudgets_def budget_request_def jsonResponse_def split: sum.splits)

lemma upsert_existing:
  assumes "\<exists>b\<in>set (monthly_budgets d). month b = m \<and> mb_category_id b = ci"
  shows "upsert_budget d now (Some m) (Some ci) (Some am)
    = Inr (d\<lparr>monthly_budgets := map (set_budget m ci am now) (monthly_budgets d),
             seq_monthly_budgets := seq_monthly_budgets d + 1\<rparr>)"
  using assms by (simp add: upsert_budget_def)

lemma upsert_new:
  assumes "\<not> (\<exists>b\<in>set (monthly_budgets d). month b = m \<and> mb_category_id b = ci)"
    and "ci \<in> set (map cat_id (categories d))"
  shows "upsert_budget d now (Some m) (Some ci) (Some am)
    = Inr (d\<lparr>monthly_budgets := monthly_budgets d @
                    [\<lparr>mb_id = seq_monthly_budgets d + 1, month = m, mb_category_id = ci,
                      budget_amount = am, mb_created_at = now, updated_at = now\<rparr>],
             seq_monthly_budgets := seq_monthly_budgets d + 1\<rparr>)"
proof -
  from assms(1) have "(\<exists>b\<in>set (monthly_budgets d). month b = m \<and> mb_category_id b = ci) = False"
    by blast
  with assms(2) show ?thesis
    by (simp only: upsert_budget_def option.case if_False if_True not_not not_True_eq_False)
qed

lemma set_budget_twice:
  "set_budget m ci a2 t2 (set_budget m ci a1 t1 b) = set_budget m ci a2 t2 b"
  by (simp add: set_budget_def)

lemma set_budget_key:
  "month (set_budget m ci am now b) = month b"
  "mb_category_id (set_budget m ci am now b) = mb_category_id b"
  by (simp_all add: set_budget_def)

lemma set_budget_other:
  assumes "\<not> (\<exists>b\<in>set bs. month b = m \<and> mb_category_id b = ci)"
  shows "map (set_budget m ci am now) bs = bs"
  using assms by (induction bs) (auto simp: set_budget_def)

lemma filter_set_budget:
  "filter (\<lambda>b. month b = m \<and> mb_category_id b = ci) (map (set_budget m ci am now) bs)
     = map (set_budget m ci am now) (filter (\<lambda>b. month b = m \<and> mb_category_id b = ci) bs)"
  by (induction bs) (simp_all add: set_budget_key)

lemma unique_row:
  assumes "budgets_unique d"
    and "\<exists>b\<in>set (monthly_budgets d). month b = m \<and> mb_category_id b = ci"
  shows "\<exists>b. filter (\<lambda>b. month b = m \<and> mb_category_id b = ci) (monthly_budgets d) = [b]"
proof -
  let ?f = "filter (\<lambda>b. month b = m \<and> mb_category_id b = ci) (monthly_budgets d)"
  have eq: "(\<lambda>b::monthly_budget. month b = m \<and> mb_category_id b = ci)
      = (\<lambda>b. (month b, mb_category_id b) = (m, ci))"
    by (rule ext) auto
  have "length (filter (\<lambda>b. (month b, mb_category_id b) = (m, ci)) (monthly_budgets d)) \<le> 1"
    using assms(1) unfolding budgets_unique_def by (rule filter_key_distinct)
  then have "length ?f \<le> 1" by (simp only: eq)
  moreover from assms(2) have "?f \<noteq> []" by (simp add: filter_empty_conv)
  ultimately show ?thesis by (cases ?f) simp_all
qed

text \<open>The outcome of saving twice and of saving once, in the two cases.\<close>

lemma save_twice_existing:
  assumes ex: "\<exists>b\<in>set (monthly_budgets d). month b = m \<and> mb_category_id b = ci"
    and m: "m \<noteq> []" and ci: "ci \<noteq> 0"
  shows "saveBudgets d c1 (Val m) (budget_request ci a1)
      = (JsonResponse ''Budgets saved successfully'' 200,
         d\<lparr>monthly_budgets := map (set_budget m ci a1 (c1 0)) (monthly_budgets d),
           seq_monthly_budgets := seq_monthly_budgets d + 1\<rparr>)"
    and "saveBudgets (snd (saveBudgets d c1 (Val m) (budget_request ci a1))) c2 (Val m)
          (budget_request ci a2)
      = (JsonResponse ''Budgets saved successfully'' 200,
         d\<lparr>monthly_budgets := map (set_budget m ci a2 (c2 0)) (monthly_budgets d),
           seq_monthly_budgets := seq_monthly_budgets d + 2\<rparr>)"
proof -
  let ?d1 = "d\<lparr>monthly_budgets := map (set_budget m ci a1 (c1 0)) (monthly_budgets d),
           seq_monthly_budgets := seq_monthly_budgets d + 1\<rparr>"
  show first: "saveBudgets d c1 (Val m) (budget_request ci a1)
      = (JsonResponse ''Budgets saved successfully'' 200, ?d1)"
    by (simp add: saveBudgets_single [OF m ci] upsert_existing [OF ex])
  have ex1: "\<exists>b\<in>set (monthly_budgets ?d1). month b = m \<and> mb_category_id b = ci"
    using ex by (simp add: set_budget_key)
  show "saveBudgets (snd (saveBudgets d c1 (Val m) (budget_request ci a1))) c2 (Val m)
          (budget_request ci a2)
      = (JsonResponse ''Budgets saved successfully'' 200,
         d\<lparr>monthly_budgets := map (set_budget m ci a2 (c2 0)) (monthly_budgets d),
           seq_monthly_budgets := seq_monthly_budgets d + 2\<rparr>)"
    unfolding first snd_conv
    by (simp add: saveBudgets_single [OF m ci] upsert_existing [OF ex1] set_budget_twice comp_def)
qed

lemma save_twice_new:
  assumes nex: "\<not> (\<exists>b\<in>set (monthly_budgets d). month b = m \<and> mb_category_id b = ci)"
    and cat: "ci \<in> set (map cat_id (categories d))"
    and m: "m \<noteq> []" and ci: "ci \<noteq> 0"
  shows "saveBudgets d c1 (Val m) (budget_request ci a1)
      = (JsonResponse ''Budgets saved successfully'' 200,
         d\<lparr>monthly_budgets := monthly_budgets d @
                    [\<lparr>mb_id = seq_monthly_budgets d + 1, month = m, mb_category_id = ci,
                      budget_amount = a1, mb_created_at = c1 0, updated_at = c1 0\<rparr>],
           seq_monthly_budgets := seq_monthly_budgets d + 1\<rparr>)"
    and "saveBudgets (snd (saveBudgets d c1 (Val m) (budget_request ci a1))) c2 (Val m)
          (budget_request ci a2)
      = (JsonResponse ''Budgets saved successfully'' 200,
         d\<lparr>monthly_budgets := monthly_budgets d @
                    [\<lparr>mb_id = seq_monthly_budgets d + 1, month = m, mb_category_id = ci,
                      budget_amount = a2, mb_created_at = c1 0, updated_at = c2 0\<rparr>],
           seq_monthly_budgets := seq_monthly_budgets d + 2\<rparr>)"
proof -
  let ?d1 = "d\<lparr>monthly_budgets := monthly_budgets d @
                    [\<lparr>mb_id = seq_monthly_budgets d + 1, month = m, mb_category_id = ci,
                      budget_amount = a1, mb_created_at = c1 0, updated_at = c1 0\<rparr>],
           seq_monthly_budgets := seq_monthly_budgets d + 1\<rparr>"
  show first: "saveBudgets d c1 (Val m) (budget_request ci a1)
      = (JsonResponse ''Budgets saved successfully'' 200, ?d1)"
    by (simp add: saveBudgets_single [OF m ci] upsert_new [OF nex cat])
  have ex1: "\<exists>b\<in>set (monthly_budgets ?d1). month b = m \<and> mb_category_id b = ci"
    by simp
  show "saveBudgets (snd (saveBudgets d c1 (Val m) (budget_request ci a1))) c2 (Val m)
          (budget_request ci a2)
      = (JsonResponse ''Budgets saved successfully'' 200,
         d\<lparr>monthly_budgets := monthly_budgets d @
                    [\<lparr>mb_id = seq_monthly_budgets d + 1, month = m, mb_category_id = ci,
                      budget_amount = a2, mb_created_at = c1 0, updated_at = c2 0\<rparr>],
           seq_monthly_budgets := seq_monthly_budgets d + 2\<rparr>)"
    unfolding first snd_conv
    by (simp add: saveBudgets_single [OF m ci] upsert_existing [OF ex1]
        set_budget_other [OF nex]) (simp add: set_budget_def)
qed


text \<open>The upsert keeps the UNIQUE constraint of the budgets table.\<close>

lemma upsert_budget_unique:
  assumes "budgets_unique d" and "upsert_budget d now mo ci am = Inr d'"
  shows "budgets_unique d'"
proof -
  from assms(2) obtain m c a where args: "mo = Some m" "ci = Some c" "am = Some a"
    by (cases mo; cases ci; cases am) (simp_all add: upsert_budget_def)
  show ?thesis
  proof (cases "\<exists>b\<in>set (monthly_budgets d). month b = m \<and> mb_category_id b = c")
    case True
    with assms(2) have "monthly_budgets d' = map (set_budget m c a now) (monthly_budgets d)"
      by (auto simp: args upsert_existing)
    then have "map (\<lambda>b. (month b, mb_category_id b)) (monthly_budgets d')
        = map (\<lambda>b. (month b, mb_category_id b)) (monthly_budgets d)"
      by (simp add: comp_def set_budget_key)
    with assms(1) show ?thesis by (simp add: budgets_unique_def)
  next
    case False
    then have fresh: "(m, c) \<notin> (\<lambda>b. (month b, mb_category_id b)) ` set (monthly_budgets d)"
      by auto
    from False assms(2) have "c \<in> set (map cat_id (categories d))"
      by (auto simp: args upsert_budget_def split: if_splits)
    with False assms(2) have "monthly_budgets d' = monthly_budgets d @
        [\<lparr>mb_id = seq_monthly_budgets d + 1, month = m, mb_category_id = c,
          budget_amount = a, mb_created_at = now, updated_at = now\<rparr>]"
      by (auto simp: args upsert_new)
    with assms(1) fresh show ?thesis by (simp add: budgets_unique_def)
  qed
qed

text \<open>
  C4 (amended). \<^verbatim>\<open>POST /api/budgets\<close> twice for the same month and category, with amount
  \<open>a1\<close> and then \<open>a2\<close>, where the month is not empty, the category id is not 0 and names
  an existing category, and the budgets table satisfies its UNIQUE constraint. Both
  requests succeed; afterwards there is exactly one row for that month and category,
  its amount is \<open>a2\<close> and its \<open>updated_at\<close> is the time of the second save. The budget rows
  are those after a single save of \<open>a2\<close> made at the time of the second save, except
  for the creation time of a row that the first save created: when the row existed
  before the first save the two tables are equal, and when it did not, both tables are
  the old rows followed by the one new row, which has the time of the first save as
  its creation time after the two saves and the time of the second save after the
  single save. Categories and transactions are untouched.
\<close>

theorem saveBudgets_twice:
  assumes m: "m \<noteq> []" and ci: "ci \<noteq> 0"
    and cat: "ci \<in> set (map cat_id (categories d))"
    and uniq: "budgets_unique d"
  shows "status (fst (saveBudgets d c1 (Val m) (budget_request ci a1))) = 200
    \<and> status (fst (saveBudgets (save_once d c1 m ci a1) c2 (Val m) (budget_request ci a2))) = 200
    \<and> (\<exists>b. filter (\<lambda>b. month b = m \<and> mb_category_id b = ci)
               (monthly_budgets (save_once (save_once d c1 m ci a1) c2 m ci a2)) = [b]
            \<and> budget_amount b = a2 \<and> updated_at b = c2 0)
    \<and> map forget_created (monthly_budgets (save_once (save_once d c1 m ci a1) c2 m ci a2))
        = map forget_created (monthly_budgets (save_once d c2 m ci a2))
    \<and> ((\<exists>b\<in>set (monthly_budgets d). month b = m \<and> mb_category_id b = ci) \<longrightarrow>
          monthly_budgets (save_once (save_once d c1 m ci a1) c2 m ci a2)
            = monthly_budgets (save_once d c2 m ci a2))
    \<and> (\<not> (\<exists>b\<in>set (monthly_budgets d). month b = m \<and> mb_category_id b = ci) \<longrightarrow>
          monthly_budgets (save_once (save_once d c1 m ci a1) c2 m ci a2)
            = monthly_budgets d @
                [\<lparr>mb_id = seq_monthly_budgets d + 1, month = m, mb_category_id = ci,
                  budget_amount = a2, mb_created_at = c1 0, updated_at = c2 0\<rparr>]
          \<and> monthly_budgets (save_once d c2 m ci a2)
            = monthly_budgets d @
                [\<lparr>mb_id = seq_monthly_budgets d + 1, month = m, mb_category_id = ci,
                  budget_amount = a2, mb_created_at = c2 0, updated_at = c2 0\<rparr>])
    \<and> categories (save_once (save_once d c1 m ci a1) c2 m ci a2) = categories d
    \<and> transactions (save_once (save_once d c1 m ci a1) c2 m ci a2) = transactions d"
proof (cases "\<exists>b\<in>set (monthly_budgets d). month b = m \<and> mb_category_id b = ci")
  case True
  let ?d1 = "d\<lparr>monthly_budgets := map (set_budget m ci a1 (c1 0)) (monthly_budgets d),
           seq_monthly_budgets := seq_monthly_budgets d + 1\<rparr>"
  let ?d2 = "d\<lparr>monthly_budgets := map (set_budget m ci a2 (c2 0)) (monthly_budgets d),
           seq_monthly_budgets := seq_monthly_budgets d + 2\<rparr>"
  let ?ds = "d\<lparr>monthly_budgets := map (set_budget m ci a2 (c2 0)) (monthly_budgets d),
           seq_monthly_budgets := seq_monthly_budgets d + 1\<rparr>"
  have r1: "saveBudgets d c1 (Val m) (budget_request ci a1)
      = (JsonResponse ''Budgets saved successfully'' 200, ?d1)"
    by (rule save_twice_existing(1) [OF True m ci])
  then have d1: "save_once d c1 m ci a1 = ?d1" by (simp add: save_once_def)
  have r2: "saveBudgets ?d1 c2 (Val m) (budget_request ci a2)
      = (JsonResponse ''Budgets saved successfully'' 200, ?d2)"
    using save_twice_existing(2) [OF True m ci, of c1 a1 c2 a2] by (simp only: r1 snd_conv)
  then have d2: "save_once ?d1 c2 m ci a2 = ?d2" by (simp add: save_once_def)
  have "saveBudgets d c2 (Val m) (budget_request ci a2)
      = (JsonResponse ''Budgets saved successfully'' 200, ?ds)"
    by (rule save_twice_existing(1) [OF True m ci])
  then have ds: "save_once d c2 m ci a2 = ?ds" by (simp add: save_once_def)
  from unique_row [OF uniq True] obtain b0 where
    b0: "filter (\<lambda>b. month b = m \<and> mb_category_id b = ci) (monthly_budgets d) = [b0]" ..
  then have "b0 \<in> set (filter (\<lambda>b. month b = m \<and> mb_category_id b = ci) (monthly_budgets d))"
    by simp
  then have key: "month b0 = m \<and> mb_category_id b0 = ci" by simp
  have row: "filter (\<lambda>b. month b = m \<and> mb_category_id b = ci)
      (map (set_budget m ci a2 (c2 0)) (monthly_budgets d)) = [set_budget m ci a2 (c2 0) b0]"
    by (simp only: filter_set_budget b0 list.map)
  have vals: "budget_amount (set_budget m ci a2 (c2 0) b0) = a2"
    "updated_at (set_budget m ci a2 (c2 0) b0) = c2 0"
    using key by (simp_all add: set_budget_def)
  show ?thesis
    unfolding d1 d2 ds r1 r2 using True row vals by auto
next
  case False
  let ?new = "\<lambda>am created updated. \<lparr>mb_id = seq_monthly_budgets d + 1, month = m,
      mb_category_id = ci, budget_amount = am, mb_created_at = created, updated_at = updated\<rparr>"
  let ?d1 = "d\<lparr>monthly_budgets := monthly_budgets d @ [?new a1 (c1 0) (c1 0)],
           seq_monthly_budgets := seq_monthly_budgets d + 1\<rparr>"
  let ?d2 = "d\<lparr>monthly_budgets := monthly_budgets d @ [?new a2 (c1 0) (c2 0)],
           seq_monthly_budgets := seq_monthly_budgets d + 2\<rparr>"
  let ?ds = "d\<lparr>monthly_budgets := monthly_budgets d @ [?new a2 (c2 0) (c2 0)],
           seq_monthly_budgets := seq_monthly_budgets d + 1\<rparr>"
  have r1: "saveBudgets d c1 (Val m) (budget_request ci a1)
      = (JsonResponse ''Budgets saved successfully'' 200, ?d1)"
    by (rule save_twice_new(1) [OF False cat m ci])
  then have d1: "save_once d c1 m ci a1 = ?d1" by (simp add: save_once_def)
  have r2: "saveBudgets ?d1 c2 (Val m) (budget_request ci a2)
      = (JsonResponse ''Budgets saved successfully'' 200, ?d2)"
    using save_twice_new(2) [OF False cat m ci, of c1 a1 c2 a2] by (simp only: r1 snd_conv)
  then have d2: "save_once ?d1 c2 m ci a2 = ?d2" by (simp add: save_once_def)
  have "saveBudgets d c2 (Val m) (budget_request ci a2)
      = (JsonResponse ''Budgets saved successfully'' 200, ?ds)"
    by (rule save_twice_new(1) [OF False cat m ci])
  then have ds: "save_once d c2 m ci a2 = ?ds" by (simp add: save_once_def)
  have none: "filter (\<lambda>b. month b = m \<and> mb_category_id b = ci) (monthly_budgets d) = []"
    using False by (auto simp: filter_empty_conv)
  show ?thesis
    unfolding d1 d2 ds r1 r2 using False none by (auto simp: forget_created_def)
qed

lemma example_saves:
  "monthly_budgets (save_once (save_once example_db morning ''2024-04'' 2 300) evening ''2024-04'' 2 350)
     = [\<lparr>mb_id = 1, month = ''2024-03'', mb_category_id = 1, budget_amount = 1600,
          mb_created_at = ''2024-03-01 08:00:00'', updated_at = ''2024-03-01 08:00:00''\<rparr>,
        \<lparr>mb_id = 2, month = ''2024-04'', mb_category_id = 2, budget_amount = 350,
          mb_created_at = ''2024-04-01 08:00:00'', updated_at = ''2024-04-01 20:00:00''\<rparr>]"
  "monthly_budgets (save_once example_db evening ''2024-04'' 2 350)
     = [\<lparr>mb_id = 1, month = ''2024-03'', mb_category_id = 1, budget_amount = 1600,
          mb_created_at = ''2024-03-01 08:00:00'', updated_at = ''2024-03-01 08:00:00''\<rparr>,
        \<lparr>mb_id = 2, month = ''2024-04'', mb_category_id = 2, budget_amount = 350,
          mb_created_at = ''2024-04-01 20:00:00'', updated_at = ''2024-04-01 20:00:00''\<rparr>]"
  "monthly_budgets (save_once example_db morning ''2024-04'' 2 350)
     = [\<lparr>mb_id = 1, month = ''2024-03'', mb_category_id = 1, budget_amount = 1600,
          mb_created_at = ''2024-03-01 08:00:00'', updated_at = ''2024-03-01 08:00:00''\<rparr>,
        \<lparr>mb_id = 2, month = ''2024-04'', mb_category_id = 2, budget_amount = 350,
          mb_created_at = ''2024-04-01 08:00:00'', updated_at = ''2024-04-01 08:00:00''\<rparr>]"
  "monthly_budgets (save_once (save_once example_db morning ''2024-03'' 1 300) evening ''2024-03'' 1 350)
     = [\<lparr>mb_id = 1, month = ''2024-03'', mb_category_id = 1, budget_amount = 350,
          mb_created_at = ''2024-03-01 08:00:00'', updated_at = ''2024-04-01 20:00:00''\<rparr>]"
  by (simp_all add: save_once_def saveBudgets_def budget_request_def upsert_budget_def
      set_budget_def jsonResponse_def morning_def evening_def example_db_def
      example_categories_def example_budgets_def)

theorem saveBudgets_twice_witness:
  "''2024-04'' \<noteq> [] \<and> (2::int) \<noteq> 0 \<and> 2 \<in> set (map cat_id (categories example_db))
   \<and> budgets_unique example_db
   \<and> filter (\<lambda>b. month b = ''2024-04'' \<and> mb_category_id b = 2)
        (monthly_budgets (save_once (save_once example_db morning ''2024-04'' 2 300)
           evening ''2024-04'' 2 350))
      = [\<lparr>mb_id = 2, month = ''2024-04'', mb_category_id = 2, budget_amount = 350,
          mb_created_at = ''2024-04-01 08:00:00'', updated_at = ''2024-04-01 20:00:00''\<rparr>]
   \<and> map forget_created (monthly_budgets (save_once (save_once example_db morning ''2024-04'' 2 300)
           evening ''2024-04'' 2 350))
      = map forget_created (monthly_budgets (save_once example_db evening ''2024-04'' 2 350))
   \<and> monthly_budgets (save_once (save_once example_db morning ''2024-03'' 1 300) evening ''2024-03'' 1 350)
      = [\<lparr>mb_id = 1, month = ''2024-03'', mb_category_id = 1, budget_amount = 350,
          mb_created_at = ''2024-03-01 08:00:00'', updated_at = ''2024-04-01 20:00:00''\<rparr>]"
proof -
  have cat: "2 \<in> set (map cat_id (categories example_db))"
    by (simp add: example_db_def example_categories_def)
  have m: "''2024-04'' \<noteq> []" and ci: "(2::int) \<noteq> 0" by simp_all
  note twice = saveBudgets_twice [OF m ci cat example_unique, of morning 300 evening 350]
  from twice have "map forget_created (monthly_budgets (save_once (save_once example_db morning ''2024-04'' 2 300)
           evening ''2024-04'' 2 350))
      = map forget_created (monthly_budgets (save_once example_db evening ''2024-04'' 2 350))"
    by blast
  then show ?thesis
    using cat example_unique by (simp add: example_saves)
qed

text \<open>
  C4 as stated fails in its last clause: when the first save creates the row, the row
  keeps the first save's creation time and has the second save's update time, which no
  single save of \<open>a2\<close> produces, neither at the time of the second save nor at the time
  of the first.
\<close>

theorem saveBudgets_twice_counterexample:
  "monthly_budgets (save_once (save_once example_db morning ''2024-04'' 2 300) evening ''2024-04'' 2 350)
     \<noteq> monthly_budgets (save_once example_db evening ''2024-04'' 2 350)
   \<and> monthly_budgets (save_once (save_once example_db morning ''2024-04'' 2 300) evening ''2024-04'' 2 350)
     \<noteq> monthly_budgets (save_once example_db morning ''2024-04'' 2 350)"
  by (simp add: example_saves)

section \<open>The CSV mapping\<close>

lemma those_map_defined:
  "\<forall>x\<in>set xs. f x \<noteq> None \<Longrightarrow> those (map f xs) = Some (map (\<lambda>x. the (f x)) xs)"
  by (induction xs) auto

lemma those_map_undefined:
  "x \<in> set xs \<Longrightarrow> f x = None \<Longrightarrow> those (map f xs) = None"
  by (induction xs) (auto split: option.splits)

lemma isNaN_abs: "isNaN (Math_abs x) \<longleftrightarrow> x = NaN"
  by (cases x) simp_all

lemma Math_abs_range: "Math_abs x = NaN \<or> Math_abs x = Infinity \<or> (\<exists>r\<ge>0. Math_abs x = Num r)"
  by (cases x) simp_all

lemma normalize_date_missing: "\<not> truthy_cell cell \<Longrightarrow> normalize_date Date_parse cell = cell"
  by (cases cell rule: truthy_cell.cases) (simp_all add: normalize_date_def)

lemma map_row_defined:
  "row amountColumn \<noteq> None \<Longrightarrow>
   map_row Date_parse parseFloat dateColumn descColumn amountColumn defaultType defaultCategory row
     = Some (mapped Date_parse parseFloat dateColumn descColumn amountColumn defaultType
               defaultCategory row)"
  by (auto simp: map_row_def mapped_def)

text \<open>
  When every row has an amount cell, the list submitted is the image of the rows that
  are kept, in order. The amount submitted for a row is the absolute value of
  \<^verbatim>\<open>parseFloat\<close> of the raw amount without \<^verbatim>\<open>$\<close> and \<^verbatim>\<open>,\<close>, and the type is the chosen
  default whatever the sign. A row whose date or description is missing or empty, or
  whose stripped amount parses to NaN, is not kept. Every submitted amount is a
  non-negative number or Infinity.
\<close>

lemma handleCSVImport_defined_rows:
  assumes "\<forall>row\<in>set rows. row amountColumn \<noteq> None"
  shows "handleCSVImport Date_parse parseFloat dateColumn descColumn amountColumn defaultType
        defaultCategory rows
      = Some (map (mapped Date_parse parseFloat dateColumn descColumn amountColumn defaultType
                     defaultCategory)
                (filter (submitted Date_parse parseFloat dateColumn descColumn amountColumn) rows))
    \<and> (\<forall>row\<in>set rows.
          c_amount (mapped Date_parse parseFloat dateColumn descColumn amountColumn defaultType
                      defaultCategory row)
            = Math_abs (parseFloat (strip_currency (the (row amountColumn))))
        \<and> c_type (mapped Date_parse parseFloat dateColumn descColumn amountColumn defaultType
                     defaultCategory row)
            = defaultType
        \<and> (\<not> truthy_cell (row dateColumn) \<or> \<not> truthy_cell (row descColumn)
             \<or> parseFloat (strip_currency (the (row amountColumn))) = NaN
            \<longrightarrow> \<not> submitted Date_parse parseFloat dateColumn descColumn amountColumn row))
    \<and> (\<forall>txn\<in>set (the (handleCSVImport Date_parse parseFloat dateColumn descColumn amountColumn
                            defaultType defaultCategory rows)).
          c_amount txn = Infinity \<or> (\<exists>r\<ge>0. c_amount txn = Num r))"
proof -
  let ?f = "map_row Date_parse parseFloat dateColumn descColumn amountColumn defaultType
      defaultCategory"
  let ?g = "mapped Date_parse parseFloat dateColumn descColumn amountColumn defaultType
      defaultCategory"
  let ?sub = "submitted Date_parse parseFloat dateColumn descColumn amountColumn"
  let ?keep = "\<lambda>txn. truthy_cell (c_date txn) \<and> truthy_cell (c_description txn)
                      \<and> \<not> isNaN (c_amount txn)"
  have "map (\<lambda>row. the (?f row)) rows = map ?g rows"
    using assms by (intro map_cong refl) (simp add: map_row_defined)
  moreover have "those (map ?f rows) = Some (map (\<lambda>row. the (?f row)) rows)"
    by (rule those_map_defined) (use assms in \<open>simp add: map_row_defined\<close>)
  ultimately have "those (map ?f rows) = Some (map ?g rows)" by simp
  then have "handleCSVImport Date_parse parseFloat dateColumn descColumn amountColumn defaultType
        defaultCategory rows
      = Some (filter ?keep (map ?g rows))"
    by (simp add: handleCSVImport_def)
  also have "filter ?keep (map ?g rows) = map ?g (filter ?sub rows)"
  proof -
    have "?sub = (\<lambda>row. ?keep (?g row))"
      by (rule ext) (simp add: submitted_def mapped_def isNaN_abs)
    then show ?thesis by (simp add: filter_map comp_def)
  qed
  finally have run: "handleCSVImport Date_parse parseFloat dateColumn descColumn amountColumn
        defaultType defaultCategory rows
      = Some (map ?g (filter ?sub rows))" .
  have dropped: "\<not> ?sub row"
    if "\<not> truthy_cell (row dateColumn) \<or> \<not> truthy_cell (row descColumn)
             \<or> parseFloat (strip_currency (the (row amountColumn))) = NaN" for row
    using that normalize_date_missing [of "row dateColumn" Date_parse]
    by (auto simp: submitted_def)
  have range: "c_amount txn = Infinity \<or> (\<exists>r\<ge>0. c_amount txn = Num r)"
    if "txn \<in> set (map ?g (filter ?sub rows))" for txn
  proof -
    from that obtain row where row: "txn = ?g row" "?sub row" by auto
    then have "c_amount txn = Math_abs (parseFloat (strip_currency (the (row amountColumn))))"
      "parseFloat (strip_currency (the (row amountColumn))) \<noteq> NaN"
      by (simp_all add: mapped_def submitted_def)
    then show ?thesis
      using Math_abs_range [of "parseFloat (strip_currency (the (row amountColumn)))"]
        isNaN_abs [of "parseFloat (strip_currency (the (row amountColumn)))"]
      by (metis isNaN.simps(1))
  qed
  show ?thesis
    unfolding run option.sel using dropped range by (simp add: mapped_def)
qed

text \<open>
  One row without an amount cell makes the mapping throw, whatever the other rows are:
  nothing is submitted.
\<close>

lemma handleCSVImport_throws:
  assumes "row \<in> set rows" and "row amountColumn = None"
  shows "handleCSVImport Date_parse parseFloat dateColumn descColumn amountColumn defaultType
        defaultCategory rows = None"
proof -
  let ?f = "map_row Date_parse parseFloat dateColumn descColumn amountColumn defaultType
      defaultCategory"
  have "?f row = None"
    using assms(2) by (simp add: map_row_def)
  then have "those (map ?f rows) = None"
    using those_map_undefined [OF assms(1), where f = ?f] by simp
  then show ?thesis by (simp add: handleCSVImport_def)
qed

lemma example_stripped:
  "example_parseFloat (strip_currency ''$1,500'') = Num 1500"
  "example_parseFloat (strip_currency ''$1,200.50'') = Num 1200.5"
  "example_parseFloat (strip_currency ''-45.50'') = Num (- 45.5)"
  "example_parseFloat (strip_currency ''7'') = Num 7"
  "example_parseFloat (strip_currency ''12'') = Num 12"
  "example_parseFloat (strip_currency ''n/a'') = NaN"
  "example_parseFloat (strip_currency ''$1500'') = Num 1500"
  by (simp_all add: example_parseFloat_def strip_currency_def)

text \<open>
  The rows of the example: the first four are submitted, with the amounts 1500,
  1200.5, 45.5 and 7; the row with the amount \<^verbatim>\<open>n/a\<close>, the row with an empty description
  and the row with an empty date are dropped.
\<close>

lemma example_mapping:
  "map_option (map (\<lambda>txn. (c_date txn, c_description txn, c_amount txn, c_type txn, c_source txn)))
        (handleCSVImport example_Date_parse example_parseFloat ''Date'' ''Memo'' ''Amount''
           ''expense'' 1 example_rows)
      = Some [(Some ''2024-03-01'', Some ''Rent'', Num 1500, ''expense'', ''csv''),
              (Some ''2024-03-02'', Some ''Bonus'', Num 1200.5, ''expense'', ''csv''),
              (Some ''2024-03-05'', Some ''Card'', Num 45.5, ''expense'', ''csv''),
              (Some ''someday'', Some ''Gift'', Num 7, ''expense'', ''csv'')]"
  by (simp add: handleCSVImport_def map_row_def example_rows_def normalize_date_def
      example_Date_parse_def example_stripped)

text \<open>
  C9. The mapping reads the amount cell of every row before it filters. The row of a
  line that has fewer cells than the header has no amount cell, and reading it throws:
  with the row of the line \<^verbatim>\<open>2024-03-01,Rent,$1500\<close> alone, one transaction of amount
  1500 is submitted; with the row of a short line, or of an empty line, after it,
  nothing is submitted, not even that transaction, where the rows without a usable
  amount should have been dropped and the first row submitted.
\<close>

theorem handleCSVImport_short_row:
  "handleCSVImport example_Date_parse example_parseFloat ''Date'' ''Memo'' ''Amount'' ''expense'' 1
       [rent_row]
     = Some [\<lparr>c_date = Some ''2024-03-01'', c_description = Some ''Rent'', c_amount = Num 1500,
              c_type = ''expense'', c_category_id = 1, c_source = ''csv''\<rparr>]
   \<and> short_row ''Amount'' = None
   \<and> handleCSVImport example_Date_parse example_parseFloat ''Date'' ''Memo'' ''Amount''
         ''expense'' 1 [rent_row, short_row] = None
   \<and> blank_row ''Amount'' = None
   \<and> handleCSVImport example_Date_parse example_parseFloat ''Date'' ''Memo'' ''Amount''
         ''expense'' 1 [rent_row, blank_row] = None"
  by (simp add: handleCSVImport_def map_row_def rent_row_def short_row_def blank_row_def
      normalize_date_def example_Date_parse_def example_stripped)

end
